theory Spec2Isabelle
  imports Complex_Main "HOL-Library.Word"
begin

unbundle bit_operations_syntax

section \<open>Jigsaw geometry (pieceGeometry.ts)\<close>

text \<open>
  JavaScript numbers are modelled as \<open>real\<close>: every arithmetic operation is exact, and there
  is no NaN and no infinity. Grid indices and sizes are \<open>nat\<close>. The strings that the code
  builds from indices and fixed words are \<open>string\<close>. A seed, which the caller chooses, is the
  list of the UTF-16 code units of \<open>String(seed)\<close>, as \<open>charCodeAt\<close> reads them.
\<close>

subsection \<open>Data model\<close>

datatype Difficulty = basic | intermediate | advanced

record GridSize =
  rows :: nat
  cols :: nat

datatype EdgeKind = Flat | Tab | Slot

text \<open>The fields \<open>x\<close> and \<open>y\<close> of a \<open>Point\<close> are \<open>px\<close> and \<open>py\<close>.\<close>

record Point =
  px :: real
  py :: real

record CubicSegment =
  start :: Point
  cp1 :: Point
  cp2 :: Point
  end_p :: Point

text \<open>The field \<open>length\<close> of an \<open>EdgeProfile\<close> is \<open>length_p\<close>.\<close>

record EdgeProfile =
  kind :: EdgeKind
  length_p :: real
  depth :: real
  segments :: "CubicSegment list"

record PieceEdgeProfiles =
  top_p :: EdgeProfile
  right_p :: EdgeProfile
  bottom_p :: EdgeProfile
  left_p :: EdgeProfile

record PieceEdgeKinds =
  top_k :: EdgeKind
  right_k :: EdgeKind
  bottom_k :: EdgeKind
  left_k :: EdgeKind

text \<open>
  The path of a piece is the list of its commands, each with the coordinates that
  \<open>pointToString\<close> prints (rounded to three decimals); the source joins the printed
  commands with single spaces.
\<close>

datatype PathCommand = MoveTo real real | CurveTo Point Point Point | ClosePath

record JigsawPieceGeometry =
  id_g :: string
  row_g :: nat
  col_g :: nat
  edges :: PieceEdgeKinds
  path :: "PathCommand list"

datatype JigsawPresetName = realistaSuave | muySuave

record JigsawPreset =
  tabDepthRatio :: real
  tabWidthRatio :: real
  neckWidthRatio :: real
  bulbRoundness_r :: real
  shoulderSmoothness_r :: real
  jitter_r :: real

text \<open>
  A random source is the state of the closure that \<open>createSeededRng\<close> returns; an absent
  \<open>rng\<close> option is \<open>None\<close>.
\<close>

record EdgeProfileOptions =
  minDimension :: real
  tabDepth :: "real option"
  tabWidth :: "real option"
  neckWidth :: "real option"
  bulbRoundness :: "real option"
  shoulderSmoothness :: "real option"
  jitter :: "real option"
  rng :: "nat option"

type_synonym Seed = "nat list"

record JigsawGeneratorOptions =
  preset_g :: "JigsawPresetName option"
  seed_g :: "Seed option"
  tabDepth_g :: "real option"
  tabWidth_g :: "real option"
  neckWidth_g :: "real option"
  bulbRoundness_g :: "real option"
  shoulderSmoothness_g :: "real option"
  jitter_g :: "real option"

fun GRID_BY_DIFFICULTY :: "Difficulty \<Rightarrow> GridSize" where
  "GRID_BY_DIFFICULTY basic = \<lparr>rows = 3, cols = 3\<rparr>"
| "GRID_BY_DIFFICULTY intermediate = \<lparr>rows = 4, cols = 4\<rparr>"
| "GRID_BY_DIFFICULTY advanced = \<lparr>rows = 5, cols = 5\<rparr>"

fun JIGSAW_PRESETS :: "JigsawPresetName \<Rightarrow> JigsawPreset" where
  "JIGSAW_PRESETS realistaSuave =
     \<lparr>tabDepthRatio = 22 / 100, tabWidthRatio = 46 / 100, neckWidthRatio = 24 / 100,
      bulbRoundness_r = 66 / 100, shoulderSmoothness_r = 58 / 100, jitter_r = 5 / 100\<rparr>"
| "JIGSAW_PRESETS muySuave =
     \<lparr>tabDepthRatio = 2 / 10, tabWidthRatio = 5 / 10, neckWidthRatio = 29 / 100,
      bulbRoundness_r = 82 / 100, shoulderSmoothness_r = 74 / 100, jitter_r = 4 / 100\<rparr>"

definition getGridForDifficulty :: "Difficulty \<Rightarrow> GridSize" where
  "getGridForDifficulty difficulty = GRID_BY_DIFFICULTY difficulty"

subsection \<open>Numeric helpers\<close>

definition clamp :: "real \<Rightarrow> real \<Rightarrow> real \<Rightarrow> real" where
  "clamp v lo hi = min (max v lo) hi"

text \<open>
  \<open>round\<close> of the source, \<open>Number(value.toFixed(3))\<close>: the nearest multiple of 1/1000,
  a tie going away from zero.
\<close>

definition round3 :: "real \<Rightarrow> real" where
  "round3 v =
     (if v < 0 then - (of_int \<lfloor>- v * 1000 + 1 / 2\<rfloor> / 1000)
      else of_int \<lfloor>v * 1000 + 1 / 2\<rfloor> / 1000)"

definition roundPoint :: "Point \<Rightarrow> Point" where
  "roundPoint p = \<lparr>px = round3 (px p), py = round3 (py p)\<rparr>"

subsection \<open>Seeded random source\<close>

text \<open>
  The code units of a \<open>string\<close>: the fixed words and the digits that a template literal of
  the code puts after a seed.
\<close>

definition codeUnits :: "string \<Rightarrow> Seed" where
  "codeUnits text = map of_char text"

text \<open>
  The hash is a 32-bit word: \<open>^=\<close> and \<open>Math.imul\<close> work on 32 bits, and \<open>>>> 0\<close> reads the
  word as unsigned. The state of the closure is a number that grows by 0x6d2b79f5 at each
  call, and only its low 32 bits enter the mixing. \<open>createSeededRng\<close> here is the first
  state of the closure.
\<close>

definition hashSeed :: "Seed \<Rightarrow> nat" where
  "hashSeed text =
     unat (foldl (\<lambda>hash u. (hash XOR word_of_nat u) * 16777619) (2166136261 :: 32 word) text)"

definition createSeededRng :: "Seed \<Rightarrow> nat" where
  "createSeededRng seed = (let h = hashSeed seed in if h = 0 then 1 else h)"

text \<open>One call of the closure: the value returned and the new state.\<close>

definition rng_next :: "nat \<Rightarrow> real \<times> nat" where
  "rng_next state0 =
     (let state = state0 + 0x6d2b79f5;
          t0 = (word_of_nat state :: 32 word);
          t1 = (t0 XOR drop_bit 15 t0) * (t0 OR 1);
          t2 = t1 XOR (t1 + (t1 XOR drop_bit 7 t1) * (t1 OR 61))
      in (real (unat (t2 XOR drop_bit 14 t2)) / 4294967296, state))"

text \<open>\<open>options.rng ?? (() => 0.5)\<close>, called once.\<close>

fun rng_call :: "nat option \<Rightarrow> real \<times> nat option" where
  "rng_call None = (1 / 2, None)"
| "rng_call (Some s) = (fst (rng_next s), Some (snd (rng_next s)))"

subsection \<open>Edge profiles\<close>

definition makeLinearProfile :: "real \<Rightarrow> EdgeProfile" where
  "makeLinearProfile len =
     (let safeLength = max 1 len
      in \<lparr>kind = Flat, length_p = safeLength, depth = 0,
          segments =
            [\<lparr>start = \<lparr>px = 0, py = 0\<rparr>,
              cp1 = \<lparr>px = safeLength / 3, py = 0\<rparr>,
              cp2 = \<lparr>px = (safeLength * 2) / 3, py = 0\<rparr>,
              end_p = \<lparr>px = safeLength, py = 0\<rparr>\<rparr>]\<rparr>)"

text \<open>The body of the loop of \<open>buildHermiteSegments\<close>.\<close>

definition hermiteSegment :: "Point \<Rightarrow> Point \<Rightarrow> Point \<Rightarrow> Point \<Rightarrow> real \<Rightarrow> CubicSegment" where
  "hermiteSegment st en tangentStart tangentEnd yLimit =
     (let span = px en - px st;
          cp1xRaw = px st + px tangentStart / 3;
          cp2xRaw = px en - px tangentEnd / 3;
          epsilon = min (span * (2 / 10)) (max (1 / 1000) (span * (6 / 100)));
          cp1x = (if span > 1 / 10000 then clamp cp1xRaw (px st + epsilon) (px en - epsilon)
                  else cp1xRaw);
          cp2x = (if span > 1 / 10000 then clamp cp2xRaw (px st + epsilon) (px en - epsilon)
                  else cp2xRaw);
          cp1y = clamp (py st + py tangentStart / 3) (- yLimit) yLimit;
          cp2y = clamp (py en - py tangentEnd / 3) (- yLimit) yLimit
      in \<lparr>start = st, cp1 = \<lparr>px = cp1x, py = cp1y\<rparr>, cp2 = \<lparr>px = cp2x, py = cp2y\<rparr>,
          end_p = en\<rparr>)"

text \<open>
  The loop runs over the indices \<open>0 .. points.length - 2\<close>; the source calls it with
  seven points and seven tangents.
\<close>

fun buildHermiteSegments :: "Point list \<Rightarrow> Point list \<Rightarrow> real \<Rightarrow> CubicSegment list" where
  "buildHermiteSegments (st # en # ps) (ts # te # tts) yLimit =
     hermiteSegment st en ts te yLimit # buildHermiteSegments (en # ps) (te # tts) yLimit"
| "buildHermiteSegments _ _ _ = []"

definition roundSegment :: "CubicSegment \<Rightarrow> CubicSegment" where
  "roundSegment s =
     \<lparr>start = roundPoint (start s), cp1 = roundPoint (cp1 s), cp2 = roundPoint (cp2 s),
      end_p = roundPoint (end_p s)\<rparr>"

text \<open>
  The quantities that \<open>makeEdgeProfile\<close> computes for a tab or a slot before it builds
  the control points, in the order of the source; each \<open>jitterFactor()\<close> draws once from
  the random source.
\<close>

record EdgeShape =
  jitterAmount :: real
  minDimension_s :: real
  depthAbs :: real
  cornerSafeMargin :: real
  tabWidth_s :: real
  neckWidth_s :: real
  bulbRoundness_s :: real
  shoulderSmoothness_s :: real

definition jitterFactor :: "real \<Rightarrow> nat option \<Rightarrow> real \<times> nat option" where
  "jitterFactor amount r = (1 + (fst (rng_call r) * 2 - 1) * amount, snd (rng_call r))"

definition orElse :: "'a option \<Rightarrow> 'a \<Rightarrow> 'a" where
  "orElse v d = (case v of None \<Rightarrow> d | Some a \<Rightarrow> a)"

definition edgeShape :: "real \<Rightarrow> EdgeProfileOptions \<Rightarrow> EdgeShape" where
  "edgeShape safeLength options =
     (let jitterAmount = clamp (orElse (jitter options) 0) 0 (12 / 100);
          minDimension = max 1 (minDimension options);
          minDepth = minDimension * (18 / 100);
          maxDepth = minDimension * (26 / 100);
          baseDepth = orElse (tabDepth options) (minDimension * (22 / 100));
          j1 = jitterFactor jitterAmount (rng options);
          depthAbs = clamp (baseDepth * fst j1) minDepth maxDepth;
          cornerSafeMargin = clamp (safeLength * (14 / 100)) 6 (safeLength * (22 / 100));
          maxTabWidth = safeLength - cornerSafeMargin * 2;
          minTabWidth = safeLength * (34 / 100);
          baseTabWidth = orElse (tabWidth options) (safeLength * (46 / 100));
          j2 = jitterFactor jitterAmount (snd j1);
          tabWidth = clamp (baseTabWidth * fst j2) minTabWidth maxTabWidth;
          minNeckWidth = tabWidth * (38 / 100);
          maxNeckWidth = tabWidth * (78 / 100);
          baseNeckWidth = orElse (neckWidth options) (safeLength * (24 / 100));
          j3 = jitterFactor jitterAmount (snd j2);
          neckWidth = clamp (baseNeckWidth * fst j3) minNeckWidth maxNeckWidth;
          j4 = jitterFactor jitterAmount (snd j3);
          bulbRoundness = clamp (orElse (bulbRoundness options) (66 / 100) * fst j4)
                            (35 / 100) (95 / 100);
          j5 = jitterFactor jitterAmount (snd j4);
          shoulderSmoothness = clamp (orElse (shoulderSmoothness options) (58 / 100) * fst j5)
                                 (35 / 100) (95 / 100)
      in \<lparr>jitterAmount = jitterAmount, minDimension_s = minDimension, depthAbs = depthAbs,
          cornerSafeMargin = cornerSafeMargin, tabWidth_s = tabWidth, neckWidth_s = neckWidth,
          bulbRoundness_s = bulbRoundness, shoulderSmoothness_s = shoulderSmoothness\<rparr>)"

definition edgePoints :: "real \<Rightarrow> real \<Rightarrow> EdgeShape \<Rightarrow> Point list" where
  "edgePoints safeLength dep sh =
     (let shoulderStart = (safeLength - tabWidth_s sh) / 2;
          shoulderEnd = shoulderStart + tabWidth_s sh;
          neckInset = (tabWidth_s sh - neckWidth_s sh) / 2;
          neckStart = shoulderStart + neckInset;
          neckEnd = neckStart + neckWidth_s sh;
          center = safeLength / 2;
          neckHeight = dep * (53 / 100 + bulbRoundness_s sh * (24 / 100));
          peakHeight = dep
      in [\<lparr>px = 0, py = 0\<rparr>,
          \<lparr>px = shoulderStart, py = 0\<rparr>,
          \<lparr>px = neckStart, py = neckHeight\<rparr>,
          \<lparr>px = center, py = peakHeight\<rparr>,
          \<lparr>px = neckEnd, py = neckHeight\<rparr>,
          \<lparr>px = shoulderEnd, py = 0\<rparr>,
          \<lparr>px = safeLength, py = 0\<rparr>])"

definition edgeTangents :: "real \<Rightarrow> real \<Rightarrow> EdgeShape \<Rightarrow> Point list" where
  "edgeTangents safeLength dep sh =
     (let shoulderStart = (safeLength - tabWidth_s sh) / 2;
          shoulderEnd = shoulderStart + tabWidth_s sh;
          neckInset = (tabWidth_s sh - neckWidth_s sh) / 2;
          neckStart = shoulderStart + neckInset;
          peakHeight = dep;
          shoulderSpan = max 4 (neckStart - shoulderStart);
          shoulderTangent = shoulderSpan * (9 / 10 + shoulderSmoothness_s sh * (85 / 100));
          neckDx = max (neckWidth_s sh * (22 / 100))
                     (shoulderSpan * (45 / 100 + bulbRoundness_s sh * (35 / 100)));
          neckDy = peakHeight * (7 / 10 + bulbRoundness_s sh * (25 / 100));
          crownDx = max 3 (neckWidth_s sh * (35 / 100 + bulbRoundness_s sh * (2 / 10)));
          crownDy = peakHeight * (6 / 100 + (1 - bulbRoundness_s sh) * (8 / 100));
          trailingSpan = max 4 (safeLength - shoulderEnd);
          trailingTangent = trailingSpan * (9 / 10 + shoulderSmoothness_s sh * (85 / 100))
      in [\<lparr>px = max 6 (shoulderStart * (9 / 10)), py = 0\<rparr>,
          \<lparr>px = shoulderTangent, py = 0\<rparr>,
          \<lparr>px = neckDx, py = neckDy\<rparr>,
          \<lparr>px = crownDx, py = crownDy\<rparr>,
          \<lparr>px = neckDx, py = - neckDy\<rparr>,
          \<lparr>px = trailingTangent, py = 0\<rparr>,
          \<lparr>px = max 6 (trailingSpan * (9 / 10)), py = 0\<rparr>])"

definition makeEdgeProfile :: "EdgeKind \<Rightarrow> real \<Rightarrow> EdgeProfileOptions \<Rightarrow> EdgeProfile" where
  "makeEdgeProfile k len options =
     (let safeLength = max 1 len
      in if k = Flat then makeLinearProfile safeLength
         else
           let sh = edgeShape safeLength options;
               direction = (if k = Tab then 1 else - 1);
               dep = direction * depthAbs sh;
               segs = map roundSegment
                        (buildHermiteSegments (edgePoints safeLength dep sh)
                           (edgeTangents safeLength dep sh) (depthAbs sh * (112 / 100)))
           in \<lparr>kind = k, length_p = round3 safeLength, depth = round3 dep, segments = segs\<rparr>)"

subsection \<open>Inversion and mirroring\<close>

definition invertEdgeProfile :: "EdgeProfile \<Rightarrow> EdgeProfile" where
  "invertEdgeProfile profile =
     \<lparr>kind = (if kind profile = Flat then Flat else if kind profile = Tab then Slot else Tab),
      length_p = length_p profile,
      depth = round3 (- depth profile),
      segments =
        map (\<lambda>segment.
               \<lparr>start = \<lparr>px = px (start segment), py = round3 (- py (start segment))\<rparr>,
                cp1 = \<lparr>px = px (cp1 segment), py = round3 (- py (cp1 segment))\<rparr>,
                cp2 = \<lparr>px = px (cp2 segment), py = round3 (- py (cp2 segment))\<rparr>,
                end_p = \<lparr>px = px (end_p segment), py = round3 (- py (end_p segment))\<rparr>\<rparr>)
          (segments profile)\<rparr>"

definition mirrorX :: "EdgeProfile \<Rightarrow> Point \<Rightarrow> Point" where
  "mirrorX profile point = \<lparr>px = round3 (length_p profile - px point), py = py point\<rparr>"

definition reverseEdgeProfile :: "EdgeProfile \<Rightarrow> EdgeProfile" where
  "reverseEdgeProfile profile =
     \<lparr>kind = kind profile,
      length_p = length_p profile,
      depth = depth profile,
      segments =
        map (\<lambda>segment.
               \<lparr>start = mirrorX profile (end_p segment),
                cp1 = mirrorX profile (cp2 segment),
                cp2 = mirrorX profile (cp1 segment),
                end_p = mirrorX profile (start segment)\<rparr>)
          (rev (segments profile))\<rparr>"

definition invertAndReverseEdgeProfile :: "EdgeProfile \<Rightarrow> EdgeProfile" where
  "invertAndReverseEdgeProfile profile = reverseEdgeProfile (invertEdgeProfile profile)"

subsection \<open>Piece paths\<close>

text \<open>\<open>pointToString\<close> prints \<open>round(point.x)\<close> and \<open>round(point.y)\<close>.\<close>

definition pointToString :: "Point \<Rightarrow> Point" where
  "pointToString point = \<lparr>px = round3 (px point), py = round3 (py point)\<rparr>"

definition appendProfileWithTransform ::
  "PathCommand list \<Rightarrow> EdgeProfile \<Rightarrow> (Point \<Rightarrow> Point) \<Rightarrow> PathCommand list" where
  "appendProfileWithTransform commands profile transform =
     commands @
     map (\<lambda>segment.
            CurveTo (pointToString (transform (cp1 segment)))
              (pointToString (transform (cp2 segment)))
              (pointToString (transform (end_p segment))))
       (segments profile)"

definition buildPiecePath :: "real \<Rightarrow> real \<Rightarrow> PieceEdgeProfiles \<Rightarrow> PathCommand list" where
  "buildPiecePath pieceWidth pieceHeight es =
     (let c0 = [MoveTo 0 0];
          c1 = appendProfileWithTransform c0 (top_p es)
                 (\<lambda>point. \<lparr>px = px point, py = - py point\<rparr>);
          c2 = appendProfileWithTransform c1 (right_p es)
                 (\<lambda>point. \<lparr>px = pieceWidth + py point, py = px point\<rparr>);
          c3 = appendProfileWithTransform c2 (bottom_p es)
                 (\<lambda>point. \<lparr>px = pieceWidth - px point, py = pieceHeight + py point\<rparr>);
          c4 = appendProfileWithTransform c3 (left_p es)
                 (\<lambda>point. \<lparr>px = - py point, py = pieceHeight - px point\<rparr>)
      in c4 @ [ClosePath])"

definition buildEdgeKinds :: "PieceEdgeProfiles \<Rightarrow> PieceEdgeKinds" where
  "buildEdgeKinds es =
     \<lparr>top_k = kind (top_p es), right_k = kind (right_p es), bottom_k = kind (bottom_p es),
      left_k = kind (left_p es)\<rparr>"

definition makeEdgeOptionsForLength ::
  "real \<Rightarrow> real \<Rightarrow> JigsawPreset \<Rightarrow> JigsawGeneratorOptions \<Rightarrow> nat \<Rightarrow> EdgeProfileOptions" where
  "makeEdgeOptionsForLength len minDim preset options r =
     \<lparr>minDimension = minDim,
      tabDepth = Some (orElse (tabDepth_g options) (minDim * tabDepthRatio preset)),
      tabWidth = Some (orElse (tabWidth_g options) (len * tabWidthRatio preset)),
      neckWidth = Some (orElse (neckWidth_g options) (len * neckWidthRatio preset)),
      bulbRoundness = Some (orElse (bulbRoundness_g options) (bulbRoundness_r preset)),
      shoulderSmoothness =
        Some (orElse (shoulderSmoothness_g options) (shoulderSmoothness_r preset)),
      jitter = Some (orElse (jitter_g options) (jitter_r preset)),
      rng = Some r\<rparr>"

subsection \<open>The grid\<close>

text \<open>\<open>String(n)\<close> for a row or column index.\<close>

fun natToString :: "nat \<Rightarrow> string" where
  "natToString n =
     (if n < 10 then [''0123456789'' ! n]
      else natToString (n div 10) @ [''0123456789'' ! (n mod 10)])"

declare natToString.simps [simp del]

text \<open>
  The body of both seam loops up to the profile: the seeded source of the seam, one draw
  for the kind, and the profile made with the same source.
\<close>

definition seamProfile ::
  "Seed \<Rightarrow> string \<Rightarrow> nat \<Rightarrow> nat \<Rightarrow> real \<Rightarrow> real \<Rightarrow> JigsawPreset \<Rightarrow> JigsawGeneratorOptions
     \<Rightarrow> EdgeProfile" where
  "seamProfile baseSeed orientation r c len minDim preset options =
     (let rng0 = createSeededRng
                   (baseSeed @
                    codeUnits ('':'' @ orientation @ '':'' @ natToString r @ '':'' @ natToString c));
          draw = rng_next rng0;
          seamKind = (if fst draw < 1 / 2 then Tab else Slot)
      in makeEdgeProfile seamKind len
           (makeEdgeOptionsForLength len minDim preset options (snd draw)))"

type_synonym PieceEdgeGrid = "PieceEdgeProfiles list list"

text \<open>\<open>pieceEdges[row][col] = f(pieceEdges[row][col])\<close>, the indices in range.\<close>

definition updateCell ::
  "PieceEdgeGrid \<Rightarrow> nat \<Rightarrow> nat \<Rightarrow> (PieceEdgeProfiles \<Rightarrow> PieceEdgeProfiles) \<Rightarrow> PieceEdgeGrid" where
  "updateCell g r c f = g[r := (g ! r)[c := f (g ! r ! c)]]"

definition verticalSeam ::
  "Seed \<Rightarrow> real \<Rightarrow> real \<Rightarrow> JigsawPreset \<Rightarrow> JigsawGeneratorOptions \<Rightarrow> nat
     \<Rightarrow> PieceEdgeGrid \<Rightarrow> nat \<Rightarrow> PieceEdgeGrid" where
  "verticalSeam baseSeed pieceHeight minDim preset options r g c =
     (let rightProfile = seamProfile baseSeed ''vertical'' r c pieceHeight minDim preset options;
          g1 = updateCell g r c (\<lambda>e. e\<lparr>right_p := rightProfile\<rparr>)
      in updateCell g1 r (c + 1) (\<lambda>e. e\<lparr>left_p := invertAndReverseEdgeProfile rightProfile\<rparr>))"

definition horizontalSeam ::
  "Seed \<Rightarrow> real \<Rightarrow> real \<Rightarrow> JigsawPreset \<Rightarrow> JigsawGeneratorOptions \<Rightarrow> nat
     \<Rightarrow> PieceEdgeGrid \<Rightarrow> nat \<Rightarrow> PieceEdgeGrid" where
  "horizontalSeam baseSeed pieceWidth minDim preset options r g c =
     (let topLowerProfile =
            seamProfile baseSeed ''horizontal'' r c pieceWidth minDim preset options;
          g1 = updateCell g (r + 1) c (\<lambda>e. e\<lparr>top_p := topLowerProfile\<rparr>)
      in updateCell g1 r c (\<lambda>e. e\<lparr>bottom_p := invertAndReverseEdgeProfile topLowerProfile\<rparr>))"

text \<open>The array \<open>pieceEdges\<close> of \<open>createJigsawGeometry\<close> after its two seam loops.\<close>

definition pieceEdgesGrid ::
  "nat \<Rightarrow> nat \<Rightarrow> real \<Rightarrow> real \<Rightarrow> JigsawGeneratorOptions \<Rightarrow> PieceEdgeGrid" where
  "pieceEdgesGrid nrows ncols pieceWidth pieceHeight options =
     (let preset = JIGSAW_PRESETS (orElse (preset_g options) realistaSuave);
          baseSeed = orElse (seed_g options) (codeUnits ''ionic-jigsaw'');
          minDim = min pieceWidth pieceHeight;
          flatHorizontal =
            makeEdgeProfile Flat pieceWidth
              \<lparr>minDimension = minDim, tabDepth = None, tabWidth = None, neckWidth = None,
               bulbRoundness = None, shoulderSmoothness = None, jitter = None, rng = None\<rparr>;
          flatVertical =
            makeEdgeProfile Flat pieceHeight
              \<lparr>minDimension = minDim, tabDepth = None, tabWidth = None, neckWidth = None,
               bulbRoundness = None, shoulderSmoothness = None, jitter = None, rng = None\<rparr>;
          g0 = replicate nrows
                 (replicate ncols
                    \<lparr>top_p = flatHorizontal, right_p = flatVertical, bottom_p = flatHorizontal,
                     left_p = flatVertical\<rparr>);
          g1 = foldl (\<lambda>g r. foldl (verticalSeam baseSeed pieceHeight minDim preset options r) g
                               [0..<ncols - 1])
                 g0 [0..<nrows]
      in foldl (\<lambda>g r. foldl (horizontalSeam baseSeed pieceWidth minDim preset options r) g
                         [0..<ncols])
           g1 [0..<nrows - 1])"

definition pieceGeometry :: "real \<Rightarrow> real \<Rightarrow> nat \<Rightarrow> nat \<Rightarrow> PieceEdgeProfiles \<Rightarrow> JigsawPieceGeometry" where
  "pieceGeometry pieceWidth pieceHeight r c es =
     \<lparr>id_g = natToString r @ ''-'' @ natToString c, row_g = r, col_g = c,
      edges = buildEdgeKinds es, path = buildPiecePath pieceWidth pieceHeight es\<rparr>"

definition createJigsawGeometry ::
  "nat \<Rightarrow> nat \<Rightarrow> real \<Rightarrow> real \<Rightarrow> JigsawGeneratorOptions \<Rightarrow> JigsawPieceGeometry list" where
  "createJigsawGeometry nrows ncols pieceWidth pieceHeight options =
     (let pieceEdges = pieceEdgesGrid nrows ncols pieceWidth pieceHeight options
      in concat
           (map (\<lambda>r. map (\<lambda>c. pieceGeometry pieceWidth pieceHeight r c (pieceEdges ! r ! c))
                        [0..<ncols])
              [0..<nrows]))"

subsection \<open>Random sources as closures with state\<close>

text \<open>
  \<open>createSeededRng\<close> returns a closure over its own variable \<open>state\<close>, and each call of the
  closure changes that variable. Here the variables of the closures made so far are the
  cells of a store: \<open>createSeededRng\<close> adds a cell and returns its index, and a call of the
  closure reads and writes its cell.
\<close>

type_synonym RngStore = "nat list"

definition createSeededRngS :: "Seed \<Rightarrow> RngStore \<Rightarrow> nat \<times> RngStore" where
  "createSeededRngS seed h = (length h, h @ [createSeededRng seed])"

text \<open>One call of the closure at index \<open>a\<close>.\<close>

definition rngS :: "nat \<Rightarrow> RngStore \<Rightarrow> real \<times> RngStore" where
  "rngS a h = (fst (rng_next (h ! a)), h[a := snd (rng_next (h ! a))])"

text \<open>
  The functions that draw from a source, with the store passed through them: what they
  compute is written as in the definitions above, where the state of the one source at
  hand is passed along instead.
\<close>

fun rng_callS :: "nat option \<Rightarrow> RngStore \<Rightarrow> real \<times> RngStore" where
  "rng_callS None h = (1 / 2, h)"
| "rng_callS (Some a) h = rngS a h"

definition jitterFactorS :: "real \<Rightarrow> nat option \<Rightarrow> RngStore \<Rightarrow> real \<times> RngStore" where
  "jitterFactorS amount r h = (1 + (fst (rng_callS r h) * 2 - 1) * amount, snd (rng_callS r h))"

definition edgeShapeS :: "real \<Rightarrow> EdgeProfileOptions \<Rightarrow> RngStore \<Rightarrow> EdgeShape \<times> RngStore" where
  "edgeShapeS safeLength options h =
     (let jitterAmount = clamp (orElse (jitter options) 0) 0 (12 / 100);
          minDimension = max 1 (minDimension options);
          minDepth = minDimension * (18 / 100);
          maxDepth = minDimension * (26 / 100);
          baseDepth = orElse (tabDepth options) (minDimension * (22 / 100));
          j1 = jitterFactorS jitterAmount (rng options) h;
          depthAbs = clamp (baseDepth * fst j1) minDepth maxDepth;
          cornerSafeMargin = clamp (safeLength * (14 / 100)) 6 (safeLength * (22 / 100));
          maxTabWidth = safeLength - cornerSafeMargin * 2;
          minTabWidth = safeLength * (34 / 100);
          baseTabWidth = orElse (tabWidth options) (safeLength * (46 / 100));
          j2 = jitterFactorS jitterAmount (rng options) (snd j1);
          tabWidth = clamp (baseTabWidth * fst j2) minTabWidth maxTabWidth;
          minNeckWidth = tabWidth * (38 / 100);
          maxNeckWidth = tabWidth * (78 / 100);
          baseNeckWidth = orElse (neckWidth options) (safeLength * (24 / 100));
          j3 = jitterFactorS jitterAmount (rng options) (snd j2);
          neckWidth = clamp (baseNeckWidth * fst j3) minNeckWidth maxNeckWidth;
          j4 = jitterFactorS jitterAmount (rng options) (snd j3);
          bulbRoundness = clamp (orElse (bulbRoundness options) (66 / 100) * fst j4)
                            (35 / 100) (95 / 100);
          j5 = jitterFactorS jitterAmount (rng options) (snd j4);
          shoulderSmoothness = clamp (orElse (shoulderSmoothness options) (58 / 100) * fst j5)
                                 (35 / 100) (95 / 100)
      in (\<lparr>jitterAmount = jitterAmount, minDimension_s = minDimension, depthAbs = depthAbs,
           cornerSafeMargin = cornerSafeMargin, tabWidth_s = tabWidth, neckWidth_s = neckWidth,
           bulbRoundness_s = bulbRoundness, shoulderSmoothness_s = shoulderSmoothness\<rparr>,
          snd j5))"

definition makeEdgeProfileS ::
  "EdgeKind \<Rightarrow> real \<Rightarrow> EdgeProfileOptions \<Rightarrow> RngStore \<Rightarrow> EdgeProfile \<times> RngStore" where
  "makeEdgeProfileS k len options h =
     (let safeLength = max 1 len
      in if k = Flat then (makeLinearProfile safeLength, h)
         else
           let shaped = edgeShapeS safeLength options h;
               sh = fst shaped;
               direction = (if k = Tab then 1 else - 1);
               dep = direction * depthAbs sh;
               segs = map roundSegment
                        (buildHermiteSegments (edgePoints safeLength dep sh)
                           (edgeTangents safeLength dep sh) (depthAbs sh * (112 / 100)))
           in (\<lparr>kind = k, length_p = round3 safeLength, depth = round3 dep, segments = segs\<rparr>,
               snd shaped))"

definition seamProfileS ::
  "Seed \<Rightarrow> string \<Rightarrow> nat \<Rightarrow> nat \<Rightarrow> real \<Rightarrow> real \<Rightarrow> JigsawPreset \<Rightarrow> JigsawGeneratorOptions
     \<Rightarrow> RngStore \<Rightarrow> EdgeProfile \<times> RngStore" where
  "seamProfileS baseSeed orientation r c len minDim preset options h =
     (let created = createSeededRngS
                      (baseSeed @
                       codeUnits ('':'' @ orientation @ '':'' @ natToString r @ '':'' @
                                  natToString c)) h;
          rng = fst created;
          draw = rngS rng (snd created);
          seamKind = (if fst draw < 1 / 2 then Tab else Slot)
      in makeEdgeProfileS seamKind len (makeEdgeOptionsForLength len minDim preset options rng)
           (snd draw))"

definition verticalSeamS ::
  "Seed \<Rightarrow> real \<Rightarrow> real \<Rightarrow> JigsawPreset \<Rightarrow> JigsawGeneratorOptions \<Rightarrow> nat
     \<Rightarrow> PieceEdgeGrid \<times> RngStore \<Rightarrow> nat \<Rightarrow> PieceEdgeGrid \<times> RngStore" where
  "verticalSeamS baseSeed pieceHeight minDim preset options r gh c =
     (let made = seamProfileS baseSeed ''vertical'' r c pieceHeight minDim preset options (snd gh);
          rightProfile = fst made;
          g1 = updateCell (fst gh) r c (\<lambda>e. e\<lparr>right_p := rightProfile\<rparr>)
      in (updateCell g1 r (c + 1) (\<lambda>e. e\<lparr>left_p := invertAndReverseEdgeProfile rightProfile\<rparr>),
          snd made))"

definition horizontalSeamS ::
  "Seed \<Rightarrow> real \<Rightarrow> real \<Rightarrow> JigsawPreset \<Rightarrow> JigsawGeneratorOptions \<Rightarrow> nat
     \<Rightarrow> PieceEdgeGrid \<times> RngStore \<Rightarrow> nat \<Rightarrow> PieceEdgeGrid \<times> RngStore" where
  "horizontalSeamS baseSeed pieceWidth minDim preset options r gh c =
     (let made = seamProfileS baseSeed ''horizontal'' r c pieceWidth minDim preset options (snd gh);
          topLowerProfile = fst made;
          g1 = updateCell (fst gh) (r + 1) c (\<lambda>e. e\<lparr>top_p := topLowerProfile\<rparr>)
      in (updateCell g1 r c (\<lambda>e. e\<lparr>bottom_p := invertAndReverseEdgeProfile topLowerProfile\<rparr>),
          snd made))"

definition pieceEdgesGridS ::
  "nat \<Rightarrow> nat \<Rightarrow> real \<Rightarrow> real \<Rightarrow> JigsawGeneratorOptions \<Rightarrow> RngStore
     \<Rightarrow> PieceEdgeGrid \<times> RngStore" where
  "pieceEdgesGridS nrows ncols pieceWidth pieceHeight options h =
     (let preset = JIGSAW_PRESETS (orElse (preset_g options) realistaSuave);
          baseSeed = orElse (seed_g options) (codeUnits ''ionic-jigsaw'');
          minDim = min pieceWidth pieceHeight;
          flatHorizontal =
            makeEdgeProfileS Flat pieceWidth
              \<lparr>minDimension = minDim, tabDepth = None, tabWidth = None, neckWidth = None,
               bulbRoundness = None, shoulderSmoothness = None, jitter = None, rng = None\<rparr> h;
          flatVertical =
            makeEdgeProfileS Flat pieceHeight
              \<lparr>minDimension = minDim, tabDepth = None, tabWidth = None, neckWidth = None,
               bulbRoundness = None, shoulderSmoothness = None, jitter = None, rng = None\<rparr>
              (snd flatHorizontal);
          g0 = replicate nrows
                 (replicate ncols
                    \<lparr>top_p = fst flatHorizontal, right_p = fst flatVertical,
                     bottom_p = fst flatHorizontal, left_p = fst flatVertical\<rparr>);
          gh1 = foldl (\<lambda>gh r. foldl (verticalSeamS baseSeed pieceHeight minDim preset options r) gh
                                  [0..<ncols - 1])
                  (g0, snd flatVertical) [0..<nrows]
      in foldl (\<lambda>gh r. foldl (horizontalSeamS baseSeed pieceWidth minDim preset options r) gh
                          [0..<ncols])
           gh1 [0..<nrows - 1])"

definition createJigsawGeometryS ::
  "nat \<Rightarrow> nat \<Rightarrow> real \<Rightarrow> real \<Rightarrow> JigsawGeneratorOptions \<Rightarrow> RngStore
     \<Rightarrow> JigsawPieceGeometry list \<times> RngStore" where
  "createJigsawGeometryS nrows ncols pieceWidth pieceHeight options h =
     (let made = pieceEdgesGridS nrows ncols pieceWidth pieceHeight options h;
          pieceEdges = fst made
      in (concat
            (map (\<lambda>r. map (\<lambda>c. pieceGeometry pieceWidth pieceHeight r c (pieceEdges ! r ! c))
                         [0..<ncols])
               [0..<nrows]),
          snd made))"

text \<open>
  A sequence of calls: \<open>sched\<close> lists the closures called, one after the other; the result
  pairs each call with the value it returned. \<open>valuesOf a\<close> keeps the values that the
  closure \<open>a\<close> returned, in order.
\<close>

fun drawsS :: "nat list \<Rightarrow> RngStore \<Rightarrow> (nat \<times> real) list" where
  "drawsS [] h = []"
| "drawsS (a # as) h = (a, fst (rngS a h)) # drawsS as (snd (rngS a h))"

definition valuesOf :: "nat \<Rightarrow> (nat \<times> real) list \<Rightarrow> real list" where
  "valuesOf a ds = map snd (filter (\<lambda>d. fst d = a) ds)"

section \<open>Puzzle state and interaction (usePuzzle.ts)\<close>

subsection \<open>Data model\<close>

text \<open>
  \<open>"tray" | "board"\<close> is the type of \<open>PuzzlePiece.location\<close> and of \<open>DragSource\<close>.
  The fields \<open>id\<close>, \<open>x\<close> and \<open>y\<close> of a \<open>PuzzlePiece\<close> are \<open>id_p\<close>, \<open>x_p\<close> and \<open>y_p\<close>.
\<close>

datatype Location = Tray | Board

type_synonym DragSource = Location

record PuzzlePiece =
  id_p :: string
  row :: nat
  col :: nat
  location :: Location
  x_p :: real
  y_p :: real
  tx :: real
  ty :: real
  traySlot :: "nat option"
  locked :: bool

record DragState =
  pieceId :: string
  pointerId :: int
  source :: DragSource
  offsetX :: real
  offsetY :: real

text \<open>
  The options of the hook. \<open>onSolved\<close> tells whether a callback is given; \<open>trayOrder\<close> is
  the memoised result of \<open>createTrayOrder\<close>, which only feeds \<open>traySlot\<close>.
\<close>

record UsePuzzleOptions =
  difficulty :: Difficulty
  boardWidth :: real
  boardHeight :: real
  snapDistance :: real
  onSolved :: bool
  trayOrder :: "string list"

text \<open>The result of \<open>getBoundingClientRect\<close>.\<close>

record Rect =
  left_r :: real
  top_r :: real
  width_r :: real
  height_r :: real

text \<open>
  A pointer event with what its handler reads from the page: \<open>boardSvg\<close> is the bounding
  rectangle of \<open>boardSvgRef.current\<close> (\<open>None\<close> when the ref is null), \<open>sourceSvg\<close> the one of
  \<open>getSourceSvgElement(event.currentTarget)\<close>. \<open>eagerUpdate\<close> tells whether React runs the
  updater given to \<open>setPieces\<close> during the call (before the handler clears \<open>dragStateRef\<close>)
  or at the next render (after).
\<close>

record PointerEvent =
  pointerType :: string
  button :: int
  clientX :: real
  clientY :: real
  pointerId_e :: int
  boardSvg :: "Rect option"
  sourceSvg :: "Rect option"
  eagerUpdate :: bool

text \<open>
  The state and refs of the hook. \<open>rafIdRef\<close> holds the piece id captured by the pending
  animation-frame callback (\<open>None\<close> for 0); \<open>dragElementRef\<close> is true when the ref holds an
  element. \<open>onSolvedFn\<close> is the function that the last render received as \<open>onSolved\<close>; only
  its identity matters, so it is a number. \<open>solvedEffectDeps\<close> holds the dependencies
  \<open>[isSolved, onSolved]\<close> of the solved effect as they were when it last ran, and
  \<open>solvedCalls\<close> counts the calls of \<open>onSolved\<close>.
\<close>

record HookState =
  pieces :: "PuzzlePiece list"
  activePieceId :: "string option"
  activeDragSource :: "DragSource option"
  dragStateRef :: "DragState option"
  solvedNotifiedRef :: bool
  piecesRef :: "PuzzlePiece list"
  dragPositionRef :: "(real \<times> real) option"
  dragElementRef :: bool
  rafIdRef :: "string option"
  onSolvedFn :: nat
  solvedEffectDeps :: "(bool \<times> nat) option"
  solvedCalls :: nat

datatype Event =
    BoardPiecePointerDown PointerEvent string
  | BoardPiecePointerMove PointerEvent string
  | BoardPiecePointerUp PointerEvent string
  | BoardPiecePointerCancel PointerEvent string
  | TrayPiecePointerDown PointerEvent string
  | TrayPiecePointerMove PointerEvent string
  | TrayPiecePointerUp PointerEvent string
  | TrayPiecePointerCancel PointerEvent string
  | AnimationFrame bool
  | ParentRender nat
  | ResetPuzzle

subsection \<open>Helpers\<close>

definition distance :: "real \<Rightarrow> real \<Rightarrow> real \<Rightarrow> real \<Rightarrow> real" where
  "distance ax ay bx by = sqrt ((ax - bx)\<^sup>2 + (ay - by)\<^sup>2)"

definition pointInBoard :: "real \<Rightarrow> real \<Rightarrow> real \<Rightarrow> real \<Rightarrow> bool" where
  "pointInBoard x y bw bh = (x \<ge> 0 \<and> x \<le> bw \<and> y \<ge> 0 \<and> y \<le> bh)"

text \<open>\<open>Array.prototype.findIndex\<close>; \<open>None\<close> for -1.\<close>

fun findIndex :: "('a \<Rightarrow> bool) \<Rightarrow> 'a list \<Rightarrow> nat option" where
  "findIndex P [] = None"
| "findIndex P (a # as) =
     (if P a then Some 0 else case findIndex P as of None \<Rightarrow> None | Some i \<Rightarrow> Some (Suc i))"

definition bringPieceToFront :: "PuzzlePiece list \<Rightarrow> string \<Rightarrow> PuzzlePiece list" where
  "bringPieceToFront ps pid =
     (case findIndex (\<lambda>piece. id_p piece = pid) ps of
        None \<Rightarrow> ps
      | Some index \<Rightarrow>
          if index = length ps - 1 then ps
          else (take index ps @ drop (index + 1) ps) @ [ps ! index])"

text \<open>The index comes from \<open>findIndex\<close> and is in range.\<close>

definition replacePieceAtIndex :: "PuzzlePiece list \<Rightarrow> nat \<Rightarrow> PuzzlePiece \<Rightarrow> PuzzlePiece list" where
  "replacePieceAtIndex ps index nextPiece = ps[index := nextPiece]"

definition trayOrderIndex :: "string list \<Rightarrow> string \<Rightarrow> nat option" where
  "trayOrderIndex order =
     foldl (\<lambda>m (pid, index). m(pid \<mapsto> index)) Map.empty (zip order [0..<length order])"

definition createInitialPieces ::
  "nat \<Rightarrow> nat \<Rightarrow> real \<Rightarrow> real \<Rightarrow> string list \<Rightarrow> PuzzlePiece list" where
  "createInitialPieces nrows ncols pieceWidth pieceHeight order =
     concat
       (map (\<lambda>r. map (\<lambda>c.
                \<lparr>id_p = natToString r @ ''-'' @ natToString c, row = r, col = c,
                 location = Tray,
                 x_p = real c * pieceWidth, y_p = real r * pieceHeight,
                 tx = real c * pieceWidth, ty = real r * pieceHeight,
                 traySlot = trayOrderIndex order (natToString r @ ''-'' @ natToString c),
                 locked = False\<rparr>)
              [0..<ncols])
          [0..<nrows])"

definition clientToBoard :: "real \<Rightarrow> real \<Rightarrow> Rect \<Rightarrow> real \<Rightarrow> real \<Rightarrow> real \<times> real" where
  "clientToBoard cx cy rect bw bh =
     (if width_r rect = 0 \<or> height_r rect = 0 then (0, 0)
      else (((cx - left_r rect) / width_r rect) * bw, ((cy - top_r rect) / height_r rect) * bh))"

subsection \<open>The hook\<close>

definition gridRows :: "UsePuzzleOptions \<Rightarrow> nat" where
  "gridRows cfg = rows (getGridForDifficulty (difficulty cfg))"

definition gridCols :: "UsePuzzleOptions \<Rightarrow> nat" where
  "gridCols cfg = cols (getGridForDifficulty (difficulty cfg))"

definition pieceWidth :: "UsePuzzleOptions \<Rightarrow> real" where
  "pieceWidth cfg = boardWidth cfg / real (gridCols cfg)"

definition pieceHeight :: "UsePuzzleOptions \<Rightarrow> real" where
  "pieceHeight cfg = boardHeight cfg / real (gridRows cfg)"

definition totalPieces :: "UsePuzzleOptions \<Rightarrow> nat" where
  "totalPieces cfg = gridRows cfg * gridCols cfg"

definition lockedCount :: "PuzzlePiece list \<Rightarrow> nat" where
  "lockedCount ps = length (filter locked ps)"

definition isSolved :: "UsePuzzleOptions \<Rightarrow> PuzzlePiece list \<Rightarrow> bool" where
  "isSolved cfg ps = (totalPieces cfg > 0 \<and> lockedCount ps = totalPieces cfg)"

definition resetPuzzle :: "UsePuzzleOptions \<Rightarrow> HookState \<Rightarrow> HookState" where
  "resetPuzzle cfg s =
     s\<lparr>rafIdRef := None, dragPositionRef := None, dragElementRef := False,
       pieces := createInitialPieces (gridRows cfg) (gridCols cfg) (pieceWidth cfg)
                   (pieceHeight cfg) (trayOrder cfg),
       activePieceId := None, activeDragSource := None, dragStateRef := None,
       solvedNotifiedRef := False\<rparr>"

text \<open>
  The solved effect, with the dependencies \<open>[isSolved, onSolved]\<close>: it runs after a render
  in which \<open>isSolved\<close> or the function \<open>onSolved\<close> differs from what it was when the effect
  last ran.
\<close>

definition solvedEffect :: "UsePuzzleOptions \<Rightarrow> HookState \<Rightarrow> HookState" where
  "solvedEffect cfg s =
     (if solvedEffectDeps s = Some (isSolved cfg (pieces s), onSolvedFn s) then s
      else
        let s1 = s\<lparr>solvedEffectDeps := Some (isSolved cfg (pieces s), onSolvedFn s)\<rparr>
        in if \<not> isSolved cfg (pieces s) \<or> solvedNotifiedRef s \<or> \<not> onSolved cfg then s1
           else s1\<lparr>solvedNotifiedRef := True, solvedCalls := solvedCalls s + 1\<rparr>)"

text \<open>The effects after a render: \<open>piecesRef.current = pieces\<close>, then the solved effect.\<close>

definition commitEffects :: "UsePuzzleOptions \<Rightarrow> HookState \<Rightarrow> HookState" where
  "commitEffects cfg s = solvedEffect cfg (s\<lparr>piecesRef := pieces s\<rparr>)"

text \<open>The offsets that the updater of \<open>finishDrag\<close> reads.\<close>

definition dropOffset :: "UsePuzzleOptions \<Rightarrow> DragState option \<Rightarrow> real \<times> real" where
  "dropOffset cfg dragState =
     (case dragState of
        None \<Rightarrow> (pieceWidth cfg * (1 / 2), pieceHeight cfg * (1 / 2))
      | Some d \<Rightarrow> (offsetX d, offsetY d))"

text \<open>\<open>(nextX, nextY)\<close>: the pointer less the offset, clamped.\<close>

definition dropPosition :: "UsePuzzleOptions \<Rightarrow> DragState option \<Rightarrow> real \<times> real \<Rightarrow> real \<times> real" where
  "dropPosition cfg dragState pointer =
     (clamp (fst pointer - fst (dropOffset cfg dragState)) 0 (boardWidth cfg - pieceWidth cfg),
      clamp (snd pointer - snd (dropOffset cfg dragState)) 0 (boardHeight cfg - pieceHeight cfg))"

text \<open>The updater that \<open>finishDrag\<close> gives to \<open>setPieces\<close>.\<close>

definition finishDragPieces ::
  "UsePuzzleOptions \<Rightarrow> DragState option \<Rightarrow> string \<Rightarrow> DragSource \<Rightarrow> real \<times> real \<Rightarrow> bool
     \<Rightarrow> PuzzlePiece list \<Rightarrow> PuzzlePiece list" where
  "finishDragPieces cfg dragState pid dragSource pointer droppedInBoard currentPieces =
     (case findIndex (\<lambda>piece. id_p piece = pid) currentPieces of
        None \<Rightarrow> currentPieces
      | Some index \<Rightarrow>
          let piece = currentPieces ! index
          in if locked piece then currentPieces
             else if \<not> droppedInBoard then
               (if dragSource = Tray \<and> location piece = Tray then currentPieces
                else replacePieceAtIndex currentPieces index
                       (piece\<lparr>location := Tray, locked := False\<rparr>))
             else
               let nextX = fst (dropPosition cfg dragState pointer);
                   nextY = snd (dropPosition cfg dragState pointer);
                   shouldSnap = (distance nextX nextY (tx piece) (ty piece) \<le> snapDistance cfg)
               in replacePieceAtIndex currentPieces index
                    (if shouldSnap
                     then piece\<lparr>location := Board, x_p := tx piece, y_p := ty piece,
                                locked := True\<rparr>
                     else piece\<lparr>location := Board, x_p := nextX, y_p := nextY,
                                locked := False\<rparr>))"

definition finishDrag ::
  "UsePuzzleOptions \<Rightarrow> HookState \<Rightarrow> string \<Rightarrow> DragSource \<Rightarrow> PointerEvent \<Rightarrow> HookState" where
  "finishDrag cfg s pid dragSource ev =
     (let s1 = s\<lparr>rafIdRef := None, dragPositionRef := None, dragElementRef := False\<rparr>
      in case boardSvg ev of
           None \<Rightarrow> s1\<lparr>activePieceId := None, activeDragSource := None, dragStateRef := None\<rparr>
         | Some rect \<Rightarrow>
             let pointer = clientToBoard (clientX ev) (clientY ev) rect (boardWidth cfg)
                             (boardHeight cfg);
                 droppedInBoard = pointInBoard (fst pointer) (snd pointer) (boardWidth cfg)
                                    (boardHeight cfg);
                 dragState = (if eagerUpdate ev then dragStateRef s1 else None)
             in s1\<lparr>pieces := finishDragPieces cfg dragState pid dragSource pointer
                                droppedInBoard (pieces s1),
                   activePieceId := None, activeDragSource := None, dragStateRef := None\<rparr>)"

definition cancelDrag :: "HookState \<Rightarrow> HookState" where
  "cancelDrag s =
     s\<lparr>rafIdRef := None, dragPositionRef := None, dragElementRef := False,
       activePieceId := None, activeDragSource := None, dragStateRef := None\<rparr>"

definition handleBoardPiecePointerDown ::
  "UsePuzzleOptions \<Rightarrow> HookState \<Rightarrow> PointerEvent \<Rightarrow> string \<Rightarrow> HookState" where
  "handleBoardPiecePointerDown cfg s ev pid =
     (if pointerType ev = ''mouse'' \<and> button ev \<noteq> 0 then s
      else case boardSvg ev of
             None \<Rightarrow> s
           | Some rect \<Rightarrow>
               (case find (\<lambda>candidate. id_p candidate = pid) (piecesRef s) of
                  None \<Rightarrow> s
                | Some piece \<Rightarrow>
                    if locked piece \<or> location piece \<noteq> Board then s
                    else
                      let pointer = clientToBoard (clientX ev) (clientY ev) rect (boardWidth cfg)
                                      (boardHeight cfg)
                      in s\<lparr>dragStateRef :=
                             Some \<lparr>pieceId = pid, pointerId = pointerId_e ev, source = Board,
                                   offsetX = fst pointer - x_p piece,
                                   offsetY = snd pointer - y_p piece\<rparr>,
                           activePieceId := Some pid, activeDragSource := Some Board,
                           pieces := bringPieceToFront (pieces s) pid\<rparr>))"

definition handleTrayPiecePointerDown ::
  "UsePuzzleOptions \<Rightarrow> HookState \<Rightarrow> PointerEvent \<Rightarrow> string \<Rightarrow> HookState" where
  "handleTrayPiecePointerDown cfg s ev pid =
     (if pointerType ev = ''mouse'' \<and> button ev \<noteq> 0 then s
      else case find (\<lambda>candidate. id_p candidate = pid) (piecesRef s) of
             None \<Rightarrow> s
           | Some piece \<Rightarrow>
               if locked piece \<or> location piece \<noteq> Tray then s
               else
                 (case sourceSvg ev of
                    None \<Rightarrow> s
                  | Some sourceRect \<Rightarrow>
                      if width_r sourceRect = 0 \<or> height_r sourceRect = 0 then s
                      else
                        let localX = clamp (((clientX ev - left_r sourceRect) / width_r sourceRect)
                                              * pieceWidth cfg) 0 (pieceWidth cfg);
                            localY = clamp (((clientY ev - top_r sourceRect) / height_r sourceRect)
                                              * pieceHeight cfg) 0 (pieceHeight cfg)
                        in s\<lparr>dragStateRef :=
                               Some \<lparr>pieceId = pid, pointerId = pointerId_e ev, source = Tray,
                                     offsetX = localX, offsetY = localY\<rparr>,
                             activePieceId := Some pid, activeDragSource := Some Tray,
                             pieces := bringPieceToFront (pieces s) pid\<rparr>))"

text \<open>The guard that the move, up and cancel handlers share.\<close>

definition dragMatches :: "HookState \<Rightarrow> DragSource \<Rightarrow> string \<Rightarrow> PointerEvent \<Rightarrow> bool" where
  "dragMatches s src pid ev =
     (case dragStateRef s of
        None \<Rightarrow> False
      | Some d \<Rightarrow> source d = src \<and> pieceId d = pid \<and> pointerId d = pointerId_e ev)"

text \<open>The updater of \<open>handleBoardPiecePointerMove\<close>.\<close>

definition boardMovePieces :: "string \<Rightarrow> real \<Rightarrow> real \<Rightarrow> PuzzlePiece list \<Rightarrow> PuzzlePiece list" where
  "boardMovePieces pid nextX nextY currentPieces =
     (case findIndex (\<lambda>piece. id_p piece = pid) currentPieces of
        None \<Rightarrow> currentPieces
      | Some index \<Rightarrow>
          let piece = currentPieces ! index
          in if locked piece \<or> location piece \<noteq> Board then currentPieces
             else if x_p piece = nextX \<and> y_p piece = nextY then currentPieces
             else replacePieceAtIndex currentPieces index (piece\<lparr>x_p := nextX, y_p := nextY\<rparr>))"

definition handleBoardPiecePointerMove ::
  "UsePuzzleOptions \<Rightarrow> HookState \<Rightarrow> PointerEvent \<Rightarrow> string \<Rightarrow> HookState" where
  "handleBoardPiecePointerMove cfg s ev pid =
     (if \<not> dragMatches s Board pid ev then s
      else case boardSvg ev of
             None \<Rightarrow> s
           | Some rect \<Rightarrow>
               let pointer = clientToBoard (clientX ev) (clientY ev) rect (boardWidth cfg)
                               (boardHeight cfg);
                   pos = dropPosition cfg (dragStateRef s) pointer
               in s\<lparr>pieces := boardMovePieces pid (fst pos) (snd pos) (pieces s)\<rparr>)"

definition handleTrayPiecePointerMove ::
  "UsePuzzleOptions \<Rightarrow> HookState \<Rightarrow> PointerEvent \<Rightarrow> string \<Rightarrow> HookState" where
  "handleTrayPiecePointerMove cfg s ev pid =
     (if \<not> dragMatches s Tray pid ev then s
      else case boardSvg ev of
             None \<Rightarrow> s
           | Some rect \<Rightarrow>
               let pointer = clientToBoard (clientX ev) (clientY ev) rect (boardWidth cfg)
                               (boardHeight cfg);
                   pos = dropPosition cfg (dragStateRef s) pointer;
                   s1 = s\<lparr>dragPositionRef := Some pos\<rparr>
               in if rafIdRef s1 = None then s1\<lparr>rafIdRef := Some pid\<rparr> else s1)"

text \<open>The updater inside the animation-frame callback.\<close>

definition trayFramePieces :: "string \<Rightarrow> real \<times> real \<Rightarrow> PuzzlePiece list \<Rightarrow> PuzzlePiece list" where
  "trayFramePieces pid pos currentPieces =
     (case findIndex (\<lambda>p. id_p p = pid) currentPieces of
        None \<Rightarrow> currentPieces
      | Some index \<Rightarrow>
          let piece = currentPieces ! index
          in if locked piece then currentPieces
             else replacePieceAtIndex currentPieces index
                    (piece\<lparr>location := Board, x_p := fst pos, y_p := snd pos, locked := False\<rparr>))"

text \<open>
  The animation-frame callback; \<open>found\<close> tells whether \<open>querySelector\<close> finds the element of
  the piece. Moving the element with \<open>setAttribute\<close> leaves the state as it is.
\<close>

definition animationFrame :: "HookState \<Rightarrow> bool \<Rightarrow> HookState" where
  "animationFrame s found =
     (case rafIdRef s of
        None \<Rightarrow> s
      | Some pid \<Rightarrow>
          let s1 = s\<lparr>rafIdRef := None\<rparr>
          in (case dragPositionRef s1 of
                None \<Rightarrow> s1
              | Some pos \<Rightarrow>
                  (let s2 = (if \<not> dragElementRef s1 then s1\<lparr>dragElementRef := found\<rparr> else s1)
                   in if dragElementRef s2 then s2
                      else s2\<lparr>pieces := trayFramePieces pid pos (pieces s2)\<rparr>)))"

definition handleBoardPiecePointerUp ::
  "UsePuzzleOptions \<Rightarrow> HookState \<Rightarrow> PointerEvent \<Rightarrow> string \<Rightarrow> HookState" where
  "handleBoardPiecePointerUp cfg s ev pid =
     (if \<not> dragMatches s Board pid ev then s else finishDrag cfg s pid Board ev)"

definition handleTrayPiecePointerUp ::
  "UsePuzzleOptions \<Rightarrow> HookState \<Rightarrow> PointerEvent \<Rightarrow> string \<Rightarrow> HookState" where
  "handleTrayPiecePointerUp cfg s ev pid =
     (if \<not> dragMatches s Tray pid ev then s else finishDrag cfg s pid Tray ev)"

definition handleBoardPiecePointerCancel :: "HookState \<Rightarrow> PointerEvent \<Rightarrow> string \<Rightarrow> HookState" where
  "handleBoardPiecePointerCancel s ev pid =
     (if \<not> dragMatches s Board pid ev then s else cancelDrag s)"

definition handleTrayPiecePointerCancel :: "HookState \<Rightarrow> PointerEvent \<Rightarrow> string \<Rightarrow> HookState" where
  "handleTrayPiecePointerCancel s ev pid =
     (if \<not> dragMatches s Tray pid ev then s else cancelDrag s)"

subsection \<open>Runs of the hook\<close>

fun handle :: "UsePuzzleOptions \<Rightarrow> HookState \<Rightarrow> Event \<Rightarrow> HookState" where
  "handle cfg s (BoardPiecePointerDown ev pid) = handleBoardPiecePointerDown cfg s ev pid"
| "handle cfg s (BoardPiecePointerMove ev pid) = handleBoardPiecePointerMove cfg s ev pid"
| "handle cfg s (BoardPiecePointerUp ev pid) = handleBoardPiecePointerUp cfg s ev pid"
| "handle cfg s (BoardPiecePointerCancel ev pid) = handleBoardPiecePointerCancel s ev pid"
| "handle cfg s (TrayPiecePointerDown ev pid) = handleTrayPiecePointerDown cfg s ev pid"
| "handle cfg s (TrayPiecePointerMove ev pid) = handleTrayPiecePointerMove cfg s ev pid"
| "handle cfg s (TrayPiecePointerUp ev pid) = handleTrayPiecePointerUp cfg s ev pid"
| "handle cfg s (TrayPiecePointerCancel ev pid) = handleTrayPiecePointerCancel s ev pid"
| "handle cfg s (AnimationFrame found) = animationFrame s found"
| "handle cfg s (ParentRender f) = s\<lparr>onSolvedFn := f\<rparr>"
| "handle cfg s ResetPuzzle = resetPuzzle cfg s"

text \<open>
  An event: its handler, then the render and its effects. \<open>ParentRender f\<close> is a render
  caused by the parent component, which passes the function \<open>f\<close> as \<open>onSolved\<close> (a parent
  that builds the callback anew passes a new function at each of its renders); the other
  options stay as they are.
\<close>

definition step :: "UsePuzzleOptions \<Rightarrow> HookState \<Rightarrow> Event \<Rightarrow> HookState" where
  "step cfg s e = commitEffects cfg (handle cfg s e)"

definition run :: "UsePuzzleOptions \<Rightarrow> HookState \<Rightarrow> Event list \<Rightarrow> HookState" where
  "run cfg s es = foldl (step cfg) s es"

text \<open>The initial values of \<open>useState\<close> and \<open>useRef\<close>.\<close>

definition initialHookState :: HookState where
  "initialHookState =
     \<lparr>pieces = [], activePieceId = None, activeDragSource = None, dragStateRef = None,
      solvedNotifiedRef = False, piecesRef = [], dragPositionRef = None, dragElementRef = False,
      rafIdRef = None, onSolvedFn = 0, solvedEffectDeps = None, solvedCalls = 0\<rparr>"

text \<open>
  Mounting: the effects of the first render (among them \<open>resetPuzzle()\<close>), then the render
  of the initial pieces.
\<close>

definition mountPuzzle :: "UsePuzzleOptions \<Rightarrow> HookState" where
  "mountPuzzle cfg = commitEffects cfg (resetPuzzle cfg (commitEffects cfg initialHookState))"

section \<open>Definitions for the properties\<close>

subsection \<open>Rounded numbers and profiles\<close>

text \<open>A number with at most three decimals.\<close>

definition is3 :: "real \<Rightarrow> bool" where
  "is3 v = (\<exists>k::int. v = of_int k / 1000)"

definition is3_point :: "Point \<Rightarrow> bool" where
  "is3_point p = (is3 (px p) \<and> is3 (py p))"

definition is3_segment :: "CubicSegment \<Rightarrow> bool" where
  "is3_segment s = (is3_point (start s) \<and> is3_point (cp1 s) \<and> is3_point (cp2 s) \<and> is3_point (end_p s))"

definition is3_profile :: "EdgeProfile \<Rightarrow> bool" where
  "is3_profile p = (is3 (length_p p) \<and> is3 (depth p) \<and> list_all is3_segment (segments p))"

text \<open>The segments of a tab or a slot before \<open>makeEdgeProfile\<close> rounds them.\<close>

definition curveSegments :: "EdgeKind \<Rightarrow> real \<Rightarrow> EdgeProfileOptions \<Rightarrow> CubicSegment list" where
  "curveSegments k L options =
     (let sh = edgeShape L options; dep = (if k = Tab then 1 else - 1) * depthAbs sh
      in buildHermiteSegments (edgePoints L dep sh) (edgeTangents L dep sh)
           (depthAbs sh * (112 / 100)))"

subsection \<open>Inversion and mirroring, in the words of the specification\<close>

text \<open>
  Inverting flips tab and slot and negates every y coordinate and the depth. Reversing
  reverses the order of the segments, mirrors every x coordinate about half the length,
  and swaps start with end and cp1 with cp2 in each segment.
\<close>

definition negateY :: "Point \<Rightarrow> Point" where
  "negateY p = \<lparr>px = px p, py = - py p\<rparr>"

definition spec_invert :: "EdgeProfile \<Rightarrow> EdgeProfile" where
  "spec_invert profile =
     \<lparr>kind = (case kind profile of Flat \<Rightarrow> Flat | Tab \<Rightarrow> Slot | Slot \<Rightarrow> Tab),
      length_p = length_p profile,
      depth = - depth profile,
      segments =
        map (\<lambda>s. \<lparr>start = negateY (start s), cp1 = negateY (cp1 s), cp2 = negateY (cp2 s),
                   end_p = negateY (end_p s)\<rparr>)
          (segments profile)\<rparr>"

definition mirrorAbout :: "real \<Rightarrow> Point \<Rightarrow> Point" where
  "mirrorAbout m p = \<lparr>px = m - (px p - m), py = py p\<rparr>"

definition spec_reverse :: "EdgeProfile \<Rightarrow> EdgeProfile" where
  "spec_reverse profile =
     \<lparr>kind = kind profile,
      length_p = length_p profile,
      depth = depth profile,
      segments =
        rev (map (\<lambda>s. \<lparr>start = mirrorAbout (length_p profile / 2) (end_p s),
                        cp1 = mirrorAbout (length_p profile / 2) (cp2 s),
                        cp2 = mirrorAbout (length_p profile / 2) (cp1 s),
                        end_p = mirrorAbout (length_p profile / 2) (start s)\<rparr>)
               (segments profile))\<rparr>"

subsection \<open>Grids\<close>

definition wf_grid :: "nat \<Rightarrow> nat \<Rightarrow> PieceEdgeGrid \<Rightarrow> bool" where
  "wf_grid nr nc g = (length g = nr \<and> (\<forall>i < nr. length (g ! i) = nc))"

text \<open>A cell of row \<open>r\<close> after the vertical seams \<open>0 .. n - 1\<close> of that row.\<close>

definition vcell ::
  "Seed \<Rightarrow> real \<Rightarrow> real \<Rightarrow> JigsawPreset \<Rightarrow> JigsawGeneratorOptions \<Rightarrow> nat \<Rightarrow> nat \<Rightarrow> nat
     \<Rightarrow> PieceEdgeProfiles \<Rightarrow> PieceEdgeProfiles" where
  "vcell bs ph md pre opts n r j e =
     e\<lparr>right_p := (if j < n then seamProfile bs ''vertical'' r j ph md pre opts else right_p e),
       left_p := (if 0 < j \<and> j \<le> n
                  then invertAndReverseEdgeProfile (seamProfile bs ''vertical'' r (j - 1) ph md pre opts)
                  else left_p e)\<rparr>"

text \<open>A cell of row \<open>i\<close> after the horizontal seams of the rows \<open>0 .. m - 1\<close>.\<close>

definition hcell ::
  "Seed \<Rightarrow> real \<Rightarrow> real \<Rightarrow> JigsawPreset \<Rightarrow> JigsawGeneratorOptions \<Rightarrow> nat \<Rightarrow> nat \<Rightarrow> nat
     \<Rightarrow> PieceEdgeProfiles \<Rightarrow> PieceEdgeProfiles" where
  "hcell bs pw md pre opts m i j e =
     e\<lparr>top_p := (if 0 < i \<and> i \<le> m then seamProfile bs ''horizontal'' (i - 1) j pw md pre opts
                 else top_p e),
       bottom_p := (if i < m
                    then invertAndReverseEdgeProfile (seamProfile bs ''horizontal'' i j pw md pre opts)
                    else bottom_p e)\<rparr>"

subsection \<open>Paths\<close>

text \<open>The point of the first command, a move.\<close>

definition pathStartPoint :: "PathCommand list \<Rightarrow> Point option" where
  "pathStartPoint cmds = (case cmds of MoveTo x y # _ \<Rightarrow> Some \<lparr>px = x, py = y\<rparr> | _ \<Rightarrow> None)"

text \<open>The end of the last curve, when the closing command follows it.\<close>

definition pathEndPoint :: "PathCommand list \<Rightarrow> Point option" where
  "pathEndPoint cmds =
     (case rev cmds of ClosePath # CurveTo a b e # _ \<Rightarrow> Some e | _ \<Rightarrow> None)"

subsection \<open>Random sequences\<close>

text \<open>The first \<open>n\<close> values that a source in state \<open>s\<close> returns.\<close>

fun rng_values :: "nat \<Rightarrow> nat \<Rightarrow> real list" where
  "rng_values s 0 = []"
| "rng_values s (Suc n) = fst (rng_next s) # rng_values (snd (rng_next s)) n"

subsection \<open>Pieces\<close>

text \<open>A locked piece lies on the board at its target.\<close>

definition lockedOk :: "PuzzlePiece \<Rightarrow> bool" where
  "lockedOk p = (locked p \<longrightarrow> location p = Board \<and> x_p p = tx p \<and> y_p p = ty p)"

text \<open>The events that end a drag with \<open>finishDrag\<close>.\<close>

fun isDragEnd :: "Event \<Rightarrow> bool" where
  "isDragEnd (BoardPiecePointerUp ev pid) = True"
| "isDragEnd (TrayPiecePointerUp ev pid) = True"
| "isDragEnd e = False"

text \<open>
  What the handler of an event other than the reset can do to the pieces: one of the four
  updaters, the one of \<open>finishDrag\<close> at the end of a drag only.
\<close>

inductive piece_update ::
  "UsePuzzleOptions \<Rightarrow> Event \<Rightarrow> PuzzlePiece list \<Rightarrow> PuzzlePiece list \<Rightarrow> bool"
  for cfg :: UsePuzzleOptions and e :: Event and ps :: "PuzzlePiece list" where
  same: "piece_update cfg e ps ps"
| front: "piece_update cfg e ps (bringPieceToFront ps pid)"
| finish: "isDragEnd e \<Longrightarrow> piece_update cfg e ps (finishDragPieces cfg d pid src pointer b ps)"
| move: "piece_update cfg e ps (boardMovePieces pid nx ny ps)"
| frame: "piece_update cfg e ps (trayFramePieces pid pos ps)"


subsection \<open>Example inputs\<close>

text \<open>\<open>createJigsawGeometry\<close> called without options.\<close>

definition noOptions :: JigsawGeneratorOptions where
  "noOptions =
     \<lparr>preset_g = None, seed_g = None, tabDepth_g = None, tabWidth_g = None, neckWidth_g = None,
      bulbRoundness_g = None, shoulderSmoothness_g = None, jitter_g = None\<rparr>"

text \<open>A 3 x 3 puzzle on a board of 300 x 300 with a snap distance of 20.\<close>

definition exampleOptions :: UsePuzzleOptions where
  "exampleOptions =
     \<lparr>difficulty = basic, boardWidth = 300, boardHeight = 300, snapDistance = 20,
      onSolved = True, trayOrder = []\<rparr>"

text \<open>
  A touch at the client position \<open>(cx, cy)\<close>; the board is shown at the origin in its own
  size, the tray piece in a 30 x 30 box at the origin.
\<close>

definition touchAt :: "real \<Rightarrow> real \<Rightarrow> PointerEvent" where
  "touchAt cx cy =
     \<lparr>pointerType = ''touch'', button = 0, clientX = cx, clientY = cy, pointerId_e = 1,
      boardSvg = Some \<lparr>left_r = 0, top_r = 0, width_r = 300, height_r = 300\<rparr>,
      sourceSvg = Some \<lparr>left_r = 0, top_r = 0, width_r = 30, height_r = 30\<rparr>,
      eagerUpdate = False\<rparr>"

definition examplePiece :: PuzzlePiece where
  "examplePiece =
     \<lparr>id_p = ''0-0'', row = 0, col = 0, location = Tray, x_p = 0, y_p = 0, tx = 0, ty = 0,
      traySlot = None, locked = False\<rparr>"

text \<open>A state with one piece.\<close>

definition stateWith :: "PuzzlePiece \<Rightarrow> HookState" where
  "stateWith p = initialHookState\<lparr>pieces := [p], piecesRef := [p]\<rparr>"

text \<open>
  Grabbing piece \<open>(r, c)\<close> in the tray and releasing it with the pointer over the middle of
  its target cell; all nine pieces in turn.
\<close>

definition grabAndDrop :: "nat \<Rightarrow> nat \<Rightarrow> Event list" where
  "grabAndDrop r c =
     [TrayPiecePointerDown (touchAt 10 10) (natToString r @ ''-'' @ natToString c),
      TrayPiecePointerUp (touchAt (real c * 100 + 50) (real r * 100 + 50))
        (natToString r @ ''-'' @ natToString c)]"

definition solveAll :: "Event list" where
  "solveAll = concat (map (\<lambda>r. concat (map (grabAndDrop r) [0..<3])) [0..<3])"

text \<open>
  Piece \<open>(1, 1)\<close>, lying on the board at (30, 40), is grabbed with the pointer at (40, 50)
  and carried until it lies at (100, 100), its target.
\<close>

definition boardPiece :: PuzzlePiece where
  "boardPiece =
     \<lparr>id_p = ''1-1'', row = 1, col = 1, location = Board, x_p = 30, y_p = 40, tx = 100, ty = 100,
      traySlot = None, locked = False\<rparr>"

definition carryToTarget :: "Event list" where
  "carryToTarget =
     [BoardPiecePointerDown (touchAt 40 50) ''1-1'',
      BoardPiecePointerMove (touchAt 110 110) ''1-1'']"

section \<open>Properties of the geometry\<close>

lemma round3_is3: "is3 (round3 v)"
  unfolding is3_def round3_def
  by (cases "v < 0") (auto intro: exI[of _ "- \<lfloor>- v * 1000 + 1 / 2\<rfloor>"])

lemma floor_int_half: "\<lfloor>of_int k + (1 / 2 :: real)\<rfloor> = k"
  by linarith

lemma round3_id: "is3 v \<Longrightarrow> round3 v = v"
proof -
  assume "is3 v"
  then obtain k :: int where v: "v = of_int k / 1000" by (auto simp: is3_def)
  show ?thesis
  proof (cases "v < 0")
    case True
    have "- v * 1000 + 1 / 2 = of_int (- k) + 1 / 2" by (simp add: v)
    then have "\<lfloor>- v * 1000 + 1 / 2\<rfloor> = - k" using floor_int_half[of "- k"] by simp
    with True show ?thesis by (simp add: round3_def v)
  next
    case False
    have "v * 1000 + 1 / 2 = of_int k + 1 / 2" by (simp add: v)
    then have "\<lfloor>v * 1000 + 1 / 2\<rfloor> = k" using floor_int_half[of k] by simp
    with False show ?thesis by (simp add: round3_def v)
  qed
qed

lemma is3_uminus: "is3 v \<Longrightarrow> is3 (- v)"
  unfolding is3_def by (auto intro: exI[of _ "- k" for k])

lemma is3_diff: "is3 a \<Longrightarrow> is3 b \<Longrightarrow> is3 (a - b)"
  unfolding is3_def
proof -
  assume "\<exists>k::int. a = of_int k / 1000" "\<exists>k::int. b = of_int k / 1000"
  then obtain k l :: int where "a = of_int k / 1000" "b = of_int l / 1000" by auto
  then have "a - b = of_int (k - l) / 1000" by (simp add: diff_divide_distrib)
  then show "\<exists>k::int. a - b = of_int k / 1000" by blast
qed

lemma round3_zero: "round3 0 = 0"
  by (simp add: round3_def)

lemma round3_ge_1: "1 \<le> v \<Longrightarrow> 1 \<le> round3 v"
proof -
  assume v: "1 \<le> v"
  then have "(1000::int) \<le> \<lfloor>v * 1000 + 1 / 2\<rfloor>" by (simp add: le_floor_iff)
  then have "(1000::real) \<le> of_int \<lfloor>v * 1000 + 1 / 2\<rfloor>" by linarith
  with v show ?thesis by (simp add: round3_def)
qed

lemma hermiteSegment_start [simp]: "start (hermiteSegment a b ta tb y) = a"
  by (simp add: hermiteSegment_def Let_def)

lemma hermiteSegment_end [simp]: "end_p (hermiteSegment a b ta tb y) = b"
  by (simp add: hermiteSegment_def Let_def)

lemma buildHermite_starts:
  "length ps = length ts \<Longrightarrow> map start (buildHermiteSegments ps ts y) = butlast ps"
  by (induction ps ts y rule: buildHermiteSegments.induct) (auto simp: length_Suc_conv)

lemma buildHermite_ends:
  "length ps = length ts \<Longrightarrow> map end_p (buildHermiteSegments ps ts y) = tl ps"
  by (induction ps ts y rule: buildHermiteSegments.induct) (auto simp: length_Suc_conv)

lemma length_edgePoints [simp]: "length (edgePoints L d sh) = 7"
  by (simp add: edgePoints_def Let_def)

lemma length_edgeTangents [simp]: "length (edgeTangents L d sh) = 7"
  by (simp add: edgeTangents_def Let_def)

lemma length_buildHermite:
  "length ps = length ts \<Longrightarrow> length (buildHermiteSegments ps ts y) = length ps - 1"
  by (induction ps ts y rule: buildHermiteSegments.induct) auto

lemma makeEdgeProfile_curve:
  "k \<noteq> Flat \<Longrightarrow>
   makeEdgeProfile k len options =
     \<lparr>kind = k, length_p = round3 (max 1 len),
      depth = round3 ((if k = Tab then 1 else - 1) * depthAbs (edgeShape (max 1 len) options)),
      segments = map roundSegment (curveSegments k (max 1 len) options)\<rparr>"
  by (simp add: makeEdgeProfile_def curveSegments_def Let_def)

lemma makeEdgeProfile_flat:
  "makeEdgeProfile Flat len options = makeLinearProfile (max 1 len)"
  by (simp add: makeEdgeProfile_def)

lemma curveSegments_length: "length (curveSegments k L options) = 6"
  by (simp add: curveSegments_def Let_def length_buildHermite)

lemma curveSegments_hd: "start (hd (curveSegments k L options)) = \<lparr>px = 0, py = 0\<rparr>"
proof -
  let ?segs = "curveSegments k L options"
  have ne: "?segs \<noteq> []" using curveSegments_length[of k L options] by auto
  have "map start ?segs = butlast (edgePoints L ((if k = Tab then 1 else - 1) * depthAbs (edgeShape L options)) (edgeShape L options))"
    by (simp add: curveSegments_def Let_def buildHermite_starts)
  then have "hd (map start ?segs) = \<lparr>px = 0, py = 0\<rparr>"
    by (simp add: edgePoints_def Let_def)
  with ne show ?thesis by (simp add: hd_map)
qed

lemma curveSegments_last: "end_p (last (curveSegments k L options)) = \<lparr>px = L, py = 0\<rparr>"
proof -
  let ?segs = "curveSegments k L options"
  have ne: "?segs \<noteq> []" using curveSegments_length[of k L options] by auto
  have "map end_p ?segs = tl (edgePoints L ((if k = Tab then 1 else - 1) * depthAbs (edgeShape L options)) (edgeShape L options))"
    by (simp add: curveSegments_def Let_def buildHermite_ends)
  then have "last (map end_p ?segs) = \<lparr>px = L, py = 0\<rparr>"
    by (simp add: edgePoints_def Let_def)
  with ne show ?thesis by (simp add: last_map)
qed

lemma clamp_bounds: "lo \<le> hi \<Longrightarrow> lo \<le> clamp v lo hi \<and> clamp v lo hi \<le> hi"
  by (simp add: clamp_def)

lemma cornerSafeMargin_le: "0 < L \<Longrightarrow> clamp (L * (14 / 100)) 6 (L * (22 / 100)) \<le> L * (22 / 100)"
  by (simp add: clamp_def)

lemma edgeShape_jitter:
  "0 \<le> jitterAmount (edgeShape L options) \<and> jitterAmount (edgeShape L options) \<le> 12 / 100"
  using clamp_bounds[of 0 "12 / 100"] by (simp add: edgeShape_def Let_def)

lemma edgeShape_depth:
  "max 1 (minDimension options) * (18 / 100) \<le> depthAbs (edgeShape L options) \<and>
   depthAbs (edgeShape L options) \<le> max 1 (minDimension options) * (26 / 100)"
proof -
  have "max 1 (minDimension options) * (18 / 100) \<le> max 1 (minDimension options) * (26 / 100)"
    by simp
  from clamp_bounds[OF this] show ?thesis by (simp add: edgeShape_def Let_def)
qed

lemma edgeShape_tabWidth:
  assumes "0 < L"
  shows "L * (34 / 100) \<le> tabWidth_s (edgeShape L options) \<and>
         tabWidth_s (edgeShape L options) \<le> L - cornerSafeMargin (edgeShape L options) * 2"
proof -
  have "L * (34 / 100) \<le> L - clamp (L * (14 / 100)) 6 (L * (22 / 100)) * 2"
    using cornerSafeMargin_le[OF assms] assms by simp
  from clamp_bounds[OF this] show ?thesis by (simp add: edgeShape_def Let_def)
qed

lemma edgeShape_neckWidth:
  assumes "0 < L"
  shows "tabWidth_s (edgeShape L options) * (38 / 100) \<le> neckWidth_s (edgeShape L options) \<and>
         neckWidth_s (edgeShape L options) \<le> tabWidth_s (edgeShape L options) * (78 / 100)"
proof -
  have "0 \<le> tabWidth_s (edgeShape L options)"
    using edgeShape_tabWidth[OF assms, of options] assms
    by (smt (verit) mult_nonneg_nonneg divide_nonneg_nonneg)
  then have "tabWidth_s (edgeShape L options) * (38 / 100) \<le> tabWidth_s (edgeShape L options) * (78 / 100)"
    by simp
  from clamp_bounds[OF this] show ?thesis by (simp add: edgeShape_def Let_def)
qed

lemma depthAbs_edgeShape:
  "depthAbs (edgeShape L options) =
     clamp (orElse (tabDepth options) (max 1 (minDimension options) * (22 / 100)) *
              fst (jitterFactor (clamp (orElse (jitter options) 0) 0 (12 / 100)) (rng options)))
       (max 1 (minDimension options) * (18 / 100)) (max 1 (minDimension options) * (26 / 100))"
  by (simp add: edgeShape_def Let_def)

lemma updateCell_wf: "wf_grid nr nc g \<Longrightarrow> wf_grid nr nc (updateCell g r c f)"
  by (cases "r < length g") (auto simp: wf_grid_def updateCell_def nth_list_update)

lemma updateCell_nth:
  "wf_grid nr nc g \<Longrightarrow> r < nr \<Longrightarrow> c < nc \<Longrightarrow> i < nr \<Longrightarrow> j < nc \<Longrightarrow>
   updateCell g r c f ! i ! j = (if i = r \<and> j = c then f (g ! r ! c) else g ! i ! j)"
  by (auto simp: wf_grid_def updateCell_def nth_list_update)

lemma verticalSeam_wf:
  "wf_grid nr nc g \<Longrightarrow> wf_grid nr nc (verticalSeam bs ph md pre opts r g c)"
  by (simp add: verticalSeam_def Let_def updateCell_wf)

lemma verticalSeam_nth:
  assumes "wf_grid nr nc g" "r < nr" "c + 1 < nc" "i < nr" "j < nc"
  shows "verticalSeam bs ph md pre opts r g c ! i ! j =
           (if i = r \<and> j = c then (g ! i ! j)\<lparr>right_p := seamProfile bs ''vertical'' r c ph md pre opts\<rparr>
            else if i = r \<and> j = c + 1
              then (g ! i ! j)\<lparr>left_p := invertAndReverseEdgeProfile (seamProfile bs ''vertical'' r c ph md pre opts)\<rparr>
            else g ! i ! j)"
proof -
  have c: "c < nc" using assms by simp
  show ?thesis
    using assms c
    by (simp add: verticalSeam_def Let_def updateCell_nth[where nr = nr and nc = nc] updateCell_wf)
qed

lemma horizontalSeam_wf:
  "wf_grid nr nc g \<Longrightarrow> wf_grid nr nc (horizontalSeam bs pw md pre opts r g c)"
  by (simp add: horizontalSeam_def Let_def updateCell_wf)

lemma horizontalSeam_nth:
  assumes "wf_grid nr nc g" "r + 1 < nr" "c < nc" "i < nr" "j < nc"
  shows "horizontalSeam bs pw md pre opts r g c ! i ! j =
           (if i = r \<and> j = c
              then (g ! i ! j)\<lparr>bottom_p := invertAndReverseEdgeProfile (seamProfile bs ''horizontal'' r c pw md pre opts)\<rparr>
            else if i = r + 1 \<and> j = c
              then (g ! i ! j)\<lparr>top_p := seamProfile bs ''horizontal'' r c pw md pre opts\<rparr>
            else g ! i ! j)"
proof -
  have r: "r < nr" using assms by simp
  show ?thesis
    using assms r
    by (simp add: horizontalSeam_def Let_def updateCell_nth[where nr = nr and nc = nc] updateCell_wf)
qed

lemma vertical_row:
  assumes "wf_grid nr nc g" "r < nr"
  shows "n < nc \<Longrightarrow>
         wf_grid nr nc (foldl (verticalSeam bs ph md pre opts r) g [0..<n]) \<and>
         (\<forall>i < nr. \<forall>j < nc.
            foldl (verticalSeam bs ph md pre opts r) g [0..<n] ! i ! j =
              (if i = r then vcell bs ph md pre opts n r j (g ! i ! j) else g ! i ! j))"
proof (induction n)
  case 0
  with assms show ?case by (simp add: vcell_def)
next
  case (Suc n)
  let ?G = "foldl (verticalSeam bs ph md pre opts r) g [0..<n]"
  from Suc have n: "n + 1 < nc" and wf: "wf_grid nr nc ?G"
    and cells: "\<And>i j. i < nr \<Longrightarrow> j < nc \<Longrightarrow>
                  ?G ! i ! j = (if i = r then vcell bs ph md pre opts n r j (g ! i ! j) else g ! i ! j)"
    by auto
  have step: "foldl (verticalSeam bs ph md pre opts r) g [0..<Suc n] =
                verticalSeam bs ph md pre opts r ?G n"
    by simp
  have "wf_grid nr nc (verticalSeam bs ph md pre opts r ?G n)"
    using wf by (rule verticalSeam_wf)
  moreover have "verticalSeam bs ph md pre opts r ?G n ! i ! j =
          (if i = r then vcell bs ph md pre opts (Suc n) r j (g ! i ! j) else g ! i ! j)"
    if "i < nr" "j < nc" for i j
  proof -
    have vs: "verticalSeam bs ph md pre opts r ?G n ! i ! j =
           (if i = r \<and> j = n then (?G ! i ! j)\<lparr>right_p := seamProfile bs ''vertical'' r n ph md pre opts\<rparr>
            else if i = r \<and> j = n + 1
              then (?G ! i ! j)\<lparr>left_p := invertAndReverseEdgeProfile (seamProfile bs ''vertical'' r n ph md pre opts)\<rparr>
            else ?G ! i ! j)"
      by (rule verticalSeam_nth[OF wf assms(2) n that])
    have c: "?G ! i ! j = (if i = r then vcell bs ph md pre opts n r j (g ! i ! j) else g ! i ! j)"
      by (rule cells[OF that])
    show ?thesis unfolding vs c by (auto simp: vcell_def)
  qed
  ultimately show ?case unfolding step by blast
qed

lemma vertical_all:
  assumes "wf_grid nr nc g"
  shows "m \<le> nr \<Longrightarrow>
         wf_grid nr nc
           (foldl (\<lambda>g r. foldl (verticalSeam bs ph md pre opts r) g [0..<nc - 1]) g [0..<m]) \<and>
         (\<forall>i < nr. \<forall>j < nc.
            foldl (\<lambda>g r. foldl (verticalSeam bs ph md pre opts r) g [0..<nc - 1]) g [0..<m] ! i ! j =
              (if i < m then vcell bs ph md pre opts (nc - 1) i j (g ! i ! j) else g ! i ! j))"
proof (induction m)
  case 0
  with assms show ?case by simp
next
  case (Suc m)
  let ?G = "foldl (\<lambda>g r. foldl (verticalSeam bs ph md pre opts r) g [0..<nc - 1]) g [0..<m]"
  from Suc have m: "m < nr" and wf: "wf_grid nr nc ?G"
    and cells: "\<And>i j. i < nr \<Longrightarrow> j < nc \<Longrightarrow>
                  ?G ! i ! j = (if i < m then vcell bs ph md pre opts (nc - 1) i j (g ! i ! j) else g ! i ! j)"
    by auto
  have step: "foldl (\<lambda>g r. foldl (verticalSeam bs ph md pre opts r) g [0..<nc - 1]) g [0..<Suc m] =
                foldl (verticalSeam bs ph md pre opts m) ?G [0..<nc - 1]"
    by simp
  show ?case
  proof (cases "nc = 0")
    case True
    with wf show ?thesis unfolding step by simp
  next
    case False
    then have n: "nc - 1 < nc" by simp
    from vertical_row[OF wf m n, of bs ph md pre opts]
    have wf': "wf_grid nr nc (foldl (verticalSeam bs ph md pre opts m) ?G [0..<nc - 1])"
      and row: "\<And>i j. i < nr \<Longrightarrow> j < nc \<Longrightarrow>
                  foldl (verticalSeam bs ph md pre opts m) ?G [0..<nc - 1] ! i ! j =
                    (if i = m then vcell bs ph md pre opts (nc - 1) m j (?G ! i ! j) else ?G ! i ! j)"
      by auto
    have "foldl (verticalSeam bs ph md pre opts m) ?G [0..<nc - 1] ! i ! j =
            (if i < Suc m then vcell bs ph md pre opts (nc - 1) i j (g ! i ! j) else g ! i ! j)"
      if "i < nr" "j < nc" for i j
      unfolding row[OF that] cells[OF that] by auto
    with wf' show ?thesis unfolding step by blast
  qed
qed

lemma horizontal_row:
  assumes "wf_grid nr nc g" "r + 1 < nr"
  shows "n \<le> nc \<Longrightarrow>
         wf_grid nr nc (foldl (horizontalSeam bs pw md pre opts r) g [0..<n]) \<and>
         (\<forall>i < nr. \<forall>j < nc.
            foldl (horizontalSeam bs pw md pre opts r) g [0..<n] ! i ! j =
              (if i = r \<and> j < n
                 then (g ! i ! j)\<lparr>bottom_p := invertAndReverseEdgeProfile (seamProfile bs ''horizontal'' r j pw md pre opts)\<rparr>
               else if i = r + 1 \<and> j < n
                 then (g ! i ! j)\<lparr>top_p := seamProfile bs ''horizontal'' r j pw md pre opts\<rparr>
               else g ! i ! j))"
proof (induction n)
  case 0
  with assms show ?case by simp
next
  case (Suc n)
  let ?G = "foldl (horizontalSeam bs pw md pre opts r) g [0..<n]"
  from Suc have n: "n < nc" and wf: "wf_grid nr nc ?G"
    and cells: "\<And>i j. i < nr \<Longrightarrow> j < nc \<Longrightarrow>
                  ?G ! i ! j =
              (if i = r \<and> j < n
                 then (g ! i ! j)\<lparr>bottom_p := invertAndReverseEdgeProfile (seamProfile bs ''horizontal'' r j pw md pre opts)\<rparr>
               else if i = r + 1 \<and> j < n
                 then (g ! i ! j)\<lparr>top_p := seamProfile bs ''horizontal'' r j pw md pre opts\<rparr>
               else g ! i ! j)"
    by auto
  have step: "foldl (horizontalSeam bs pw md pre opts r) g [0..<Suc n] =
                horizontalSeam bs pw md pre opts r ?G n"
    by simp
  have "wf_grid nr nc (horizontalSeam bs pw md pre opts r ?G n)"
    using wf by (rule horizontalSeam_wf)
  moreover have "horizontalSeam bs pw md pre opts r ?G n ! i ! j =
              (if i = r \<and> j < Suc n
                 then (g ! i ! j)\<lparr>bottom_p := invertAndReverseEdgeProfile (seamProfile bs ''horizontal'' r j pw md pre opts)\<rparr>
               else if i = r + 1 \<and> j < Suc n
                 then (g ! i ! j)\<lparr>top_p := seamProfile bs ''horizontal'' r j pw md pre opts\<rparr>
               else g ! i ! j)"
    if "i < nr" "j < nc" for i j
    unfolding horizontalSeam_nth[OF wf assms(2) n that] cells[OF that] by auto
  ultimately show ?case unfolding step by blast
qed

lemma horizontal_all:
  assumes "wf_grid nr nc g"
  shows "m < nr \<Longrightarrow>
         wf_grid nr nc
           (foldl (\<lambda>g r. foldl (horizontalSeam bs pw md pre opts r) g [0..<nc]) g [0..<m]) \<and>
         (\<forall>i < nr. \<forall>j < nc.
            foldl (\<lambda>g r. foldl (horizontalSeam bs pw md pre opts r) g [0..<nc]) g [0..<m] ! i ! j =
              hcell bs pw md pre opts m i j (g ! i ! j))"
proof (induction m)
  case 0
  with assms show ?case by (simp add: hcell_def)
next
  case (Suc m)
  let ?G = "foldl (\<lambda>g r. foldl (horizontalSeam bs pw md pre opts r) g [0..<nc]) g [0..<m]"
  from Suc have m: "m + 1 < nr" and wf: "wf_grid nr nc ?G"
    and cells: "\<And>i j. i < nr \<Longrightarrow> j < nc \<Longrightarrow> ?G ! i ! j = hcell bs pw md pre opts m i j (g ! i ! j)"
    by auto
  have step: "foldl (\<lambda>g r. foldl (horizontalSeam bs pw md pre opts r) g [0..<nc]) g [0..<Suc m] =
                foldl (horizontalSeam bs pw md pre opts m) ?G [0..<nc]"
    by simp
  from horizontal_row[OF wf m order_refl, of bs pw md pre opts]
  have wf': "wf_grid nr nc (foldl (horizontalSeam bs pw md pre opts m) ?G [0..<nc])"
    and row: "\<And>i j. i < nr \<Longrightarrow> j < nc \<Longrightarrow>
                foldl (horizontalSeam bs pw md pre opts m) ?G [0..<nc] ! i ! j =
              (if i = m \<and> j < nc
                 then (?G ! i ! j)\<lparr>bottom_p := invertAndReverseEdgeProfile (seamProfile bs ''horizontal'' m j pw md pre opts)\<rparr>
               else if i = m + 1 \<and> j < nc
                 then (?G ! i ! j)\<lparr>top_p := seamProfile bs ''horizontal'' m j pw md pre opts\<rparr>
               else ?G ! i ! j)"
    by auto
  have "foldl (horizontalSeam bs pw md pre opts m) ?G [0..<nc] ! i ! j =
          hcell bs pw md pre opts (Suc m) i j (g ! i ! j)"
    if "i < nr" "j < nc" for i j
    unfolding row[OF that] cells[OF that] using that by (auto simp: hcell_def)
  with wf' show ?case unfolding step by blast
qed

lemma wf_replicate: "wf_grid nr nc (replicate nr (replicate nc e))"
  by (simp add: wf_grid_def)

lemma pieceEdgesGrid_cell:
  assumes "i < nr" "j < nc"
  shows "pieceEdgesGrid nr nc pw ph opts ! i ! j =
     (let pre = JIGSAW_PRESETS (orElse (preset_g opts) realistaSuave);
          bs = orElse (seed_g opts) (codeUnits ''ionic-jigsaw'');
          md = min pw ph
      in \<lparr>top_p = (if 0 < i then seamProfile bs ''horizontal'' (i - 1) j pw md pre opts
                   else makeLinearProfile (max 1 pw)),
          right_p = (if j + 1 < nc then seamProfile bs ''vertical'' i j ph md pre opts
                     else makeLinearProfile (max 1 ph)),
          bottom_p = (if i + 1 < nr
                      then invertAndReverseEdgeProfile (seamProfile bs ''horizontal'' i j pw md pre opts)
                      else makeLinearProfile (max 1 pw)),
          left_p = (if 0 < j
                    then invertAndReverseEdgeProfile (seamProfile bs ''vertical'' i (j - 1) ph md pre opts)
                    else makeLinearProfile (max 1 ph))\<rparr>)"
proof -
  define pre where "pre = JIGSAW_PRESETS (orElse (preset_g opts) realistaSuave)"
  define bs where "bs = orElse (seed_g opts) (codeUnits ''ionic-jigsaw'')"
  define md where "md = min pw ph"
  define e0 where "e0 = \<lparr>top_p = makeLinearProfile (max 1 pw), right_p = makeLinearProfile (max 1 ph),
                         bottom_p = makeLinearProfile (max 1 pw), left_p = makeLinearProfile (max 1 ph)\<rparr>"
  define g0 where "g0 = replicate nr (replicate nc e0)"
  define g1 where "g1 = foldl (\<lambda>g r. foldl (verticalSeam bs ph md pre opts r) g [0..<nc - 1]) g0 [0..<nr]"
  have grid: "pieceEdgesGrid nr nc pw ph opts =
                foldl (\<lambda>g r. foldl (horizontalSeam bs pw md pre opts r) g [0..<nc]) g1 [0..<nr - 1]"
    by (simp add: pieceEdgesGrid_def Let_def g1_def g0_def e0_def pre_def bs_def md_def
        makeEdgeProfile_flat)
  have wf0: "wf_grid nr nc g0" unfolding g0_def by (rule wf_replicate)
  have g0c: "g0 ! i ! j = e0" using assms by (simp add: g0_def)
  from vertical_all[OF wf0 order_refl, of bs ph md pre opts]
  have wf1: "wf_grid nr nc g1"
    and c1: "g1 ! i ! j = vcell bs ph md pre opts (nc - 1) i j (g0 ! i ! j)"
    using assms by (auto simp: g1_def)
  have m: "nr - 1 < nr" using assms by simp
  from horizontal_all[OF wf1 m, of bs pw md pre opts]
  have c2: "foldl (\<lambda>g r. foldl (horizontalSeam bs pw md pre opts r) g [0..<nc]) g1 [0..<nr - 1] ! i ! j =
              hcell bs pw md pre opts (nr - 1) i j (g1 ! i ! j)"
    using assms by auto
  have "hcell bs pw md pre opts (nr - 1) i j (vcell bs ph md pre opts (nc - 1) i j e0) =
     \<lparr>top_p = (if 0 < i then seamProfile bs ''horizontal'' (i - 1) j pw md pre opts
                   else makeLinearProfile (max 1 pw)),
          right_p = (if j + 1 < nc then seamProfile bs ''vertical'' i j ph md pre opts
                     else makeLinearProfile (max 1 ph)),
          bottom_p = (if i + 1 < nr
                      then invertAndReverseEdgeProfile (seamProfile bs ''horizontal'' i j pw md pre opts)
                      else makeLinearProfile (max 1 pw)),
          left_p = (if 0 < j
                    then invertAndReverseEdgeProfile (seamProfile bs ''vertical'' i (j - 1) ph md pre opts)
                    else makeLinearProfile (max 1 ph))\<rparr>"
    using assms by (auto simp: hcell_def vcell_def e0_def)
  then show ?thesis
    unfolding grid c2 c1 g0c by (simp add: Let_def pre_def bs_def md_def)
qed

lemma is3_roundSegment: "is3_segment (roundSegment s)"
  by (simp add: is3_segment_def is3_point_def roundSegment_def roundPoint_def round3_is3)

lemma makeEdgeProfile_is3: "k \<noteq> Flat \<Longrightarrow> is3_profile (makeEdgeProfile k len options)"
  by (simp add: makeEdgeProfile_curve is3_profile_def round3_is3 list_all_iff is3_roundSegment)

lemma seamProfile_kind: "kind (seamProfile bs ori r c len md pre opts) \<noteq> Flat"
  by (simp add: seamProfile_def Let_def makeEdgeProfile_curve)

lemma seamProfile_is3: "is3_profile (seamProfile bs ori r c len md pre opts)"
  by (simp add: seamProfile_def Let_def makeEdgeProfile_is3)

lemma invert_exact: "is3_profile p \<Longrightarrow> invertEdgeProfile p = spec_invert p"
  by (cases "kind p")
     (auto simp: invertEdgeProfile_def spec_invert_def is3_profile_def list_all_iff is3_segment_def
        is3_point_def negateY_def round3_id is3_uminus)

lemma spec_invert_is3: "is3_profile p \<Longrightarrow> is3_profile (spec_invert p)"
  by (auto simp: spec_invert_def is3_profile_def list_all_iff is3_segment_def is3_point_def
      negateY_def is3_uminus)

lemma reverse_exact: "is3_profile p \<Longrightarrow> reverseEdgeProfile p = spec_reverse p"
  by (auto simp: reverseEdgeProfile_def spec_reverse_def is3_profile_def list_all_iff
      is3_segment_def is3_point_def mirrorX_def mirrorAbout_def rev_map round3_id is3_diff)

lemma invertAndReverse_exact:
  "is3_profile p \<Longrightarrow> invertAndReverseEdgeProfile p = spec_reverse (spec_invert p)"
  using reverse_exact[OF spec_invert_is3] by (simp add: invertAndReverseEdgeProfile_def invert_exact)


lemma pathStart_build: "pathStartPoint (buildPiecePath pw ph es) = Some \<lparr>px = 0, py = 0\<rparr>"
  by (simp add: buildPiecePath_def appendProfileWithTransform_def pathStartPoint_def Let_def)

lemma pathEnd_build:
  assumes "segments (left_p es) \<noteq> []"
  shows "pathEndPoint (buildPiecePath pw ph es) =
           Some (pointToString \<lparr>px = - py (end_p (last (segments (left_p es)))),
                                  py = ph - px (end_p (last (segments (left_p es))))\<rparr>)"
proof -
  from assms obtain xs x where xs: "segments (left_p es) = xs @ [x]"
    by (metis rev_exhaust)
  show ?thesis
    by (simp add: buildPiecePath_def appendProfileWithTransform_def pathEndPoint_def Let_def xs)
qed

lemma flat_last_end:
  "segments (makeLinearProfile L) \<noteq> [] \<and>
   end_p (last (segments (makeLinearProfile L))) = \<lparr>px = max 1 L, py = 0\<rparr>"
  by (simp add: makeLinearProfile_def Let_def)

lemma invertAndReverse_last_end:
  assumes "segments p \<noteq> []"
  shows "segments (invertAndReverseEdgeProfile p) \<noteq> [] \<and>
         end_p (last (segments (invertAndReverseEdgeProfile p))) =
           \<lparr>px = round3 (length_p p - px (start (hd (segments p)))),
            py = round3 (- py (start (hd (segments p))))\<rparr>"
  using assms
  by (simp add: invertAndReverseEdgeProfile_def reverseEdgeProfile_def invertEdgeProfile_def
      mirrorX_def last_map last_rev hd_map)

lemma seamProfile_first_start:
  "segments (seamProfile bs ori r c len md pre opts) \<noteq> [] \<and>
   start (hd (segments (seamProfile bs ori r c len md pre opts))) = \<lparr>px = 0, py = 0\<rparr> \<and>
   length_p (seamProfile bs ori r c len md pre opts) = round3 (max 1 len)"
proof -
  have ne: "curveSegments k (max 1 len) o' \<noteq> []" for k o'
    using curveSegments_length[of k "max 1 len" o'] by auto
  show ?thesis
    using ne
    by (simp add: seamProfile_def Let_def makeEdgeProfile_curve hd_map roundSegment_def roundPoint_def
        curveSegments_hd round3_zero)
qed

lemma round3_idem: "round3 (round3 v) = round3 v"
  by (rule round3_id) (rule round3_is3)

lemma seam_opposite_last_end:
  "segments (invertAndReverseEdgeProfile (seamProfile bs ori r c len md pre opts)) \<noteq> [] \<and>
   end_p (last (segments (invertAndReverseEdgeProfile (seamProfile bs ori r c len md pre opts)))) =
     \<lparr>px = round3 (max 1 len), py = 0\<rparr>"
  using invertAndReverse_last_end[of "seamProfile bs ori r c len md pre opts"]
    seamProfile_first_start[of bs ori r c len md pre opts]
  by (simp add: round3_zero round3_idem)

lemma left_last_end:
  assumes "i < nr" "j < nc"
  shows "segments (left_p (pieceEdgesGrid nr nc pw ph opts ! i ! j)) \<noteq> [] \<and>
         end_p (last (segments (left_p (pieceEdgesGrid nr nc pw ph opts ! i ! j)))) =
           \<lparr>px = (if 0 < j then round3 (max 1 ph) else max 1 ph), py = 0\<rparr>"
  using assms seam_opposite_last_end flat_last_end
  by (simp add: pieceEdgesGrid_cell Let_def)

lemma path_end_cell:
  assumes "i < nr" "j < nc"
  shows "pathEndPoint (buildPiecePath pw ph (pieceEdgesGrid nr nc pw ph opts ! i ! j)) =
           Some \<lparr>px = 0, py = round3 (ph - (if 0 < j then round3 (max 1 ph) else max 1 ph))\<rparr>"
  using left_last_end[OF assms, of pw ph opts]
  by (simp add: pathEnd_build pointToString_def round3_zero)

lemma length_concat_grid:
  "length (concat (map (\<lambda>r. map (f r) [0..<nc]) [0..<nr])) = nr * nc"
  by (induction nr) auto

lemma in_concat_grid:
  "g \<in> set (concat (map (\<lambda>r. map (f r) [0..<nc]) [0..<nr])) \<longleftrightarrow> (\<exists>i<nr. \<exists>j<nc. g = f i j)"
proof (induction nr)
  case 0
  then show ?case by simp
next
  case (Suc n)
  have "g \<in> set (map (f n) [0..<nc]) \<longleftrightarrow> (\<exists>j<nc. g = f n j)" by auto
  with Suc show ?case by (auto simp: less_Suc_eq)
qed

lemma createJigsawGeometry_set:
  "g \<in> set (createJigsawGeometry nr nc pw ph opts) \<longleftrightarrow>
     (\<exists>i < nr. \<exists>j < nc. g = pieceGeometry pw ph i j (pieceEdgesGrid nr nc pw ph opts ! i ! j))"
  unfolding createJigsawGeometry_def Let_def by (rule in_concat_grid)

lemma createJigsawGeometry_nth:
  assumes "i < nr" "j < nc"
  shows "createJigsawGeometry nr nc pw ph opts ! (i * nc + j) =
           pieceGeometry pw ph i j (pieceEdgesGrid nr nc pw ph opts ! i ! j)"
proof -
  have "concat (map (\<lambda>r. map (f r) [0..<nc]) [0..<nr]) ! (i * nc + j) = f i j" for f :: "nat \<Rightarrow> nat \<Rightarrow> 'a"
    using assms
  proof (induction nr)
    case 0
    then show ?case by simp
  next
    case (Suc n)
    have len: "length (concat (map (\<lambda>r. map (f r) [0..<nc]) [0..<n])) = n * nc"
      by (rule length_concat_grid)
    show ?case
    proof (cases "i < n")
      case True
      then have "i * nc + j < n * nc"
        using Suc.prems(2)
      proof -
        have "i * nc + j < i * nc + nc" using Suc.prems(2) by simp
        also have "\<dots> = Suc i * nc" by simp
        also have "\<dots> \<le> n * nc" using True by (intro mult_le_mono1) simp
        finally show ?thesis .
      qed
      with Suc True show ?thesis by (simp add: nth_append len)
    next
      case False
      with Suc.prems have "i = n" by simp
      with Suc.prems show ?thesis by (simp add: nth_append len)
    qed
  qed
  then show ?thesis by (simp add: createJigsawGeometry_def Let_def)
qed

lemma word32_unit_interval:
  "0 \<le> real (unat w) / 4294967296 \<and> real (unat w) / 4294967296 < 1" for w :: "32 word"
proof -
  have "unat w < 4294967296" using unsigned_less[of w, where 'a = nat] by simp
  then have "real (unat w) < real 4294967296" by (simp only: of_nat_less_iff)
  moreover have "0 \<le> real (unat w)" by (rule of_nat_0_le_iff)
  ultimately show ?thesis by simp
qed

lemma rng_next_range: "0 \<le> fst (rng_next s) \<and> fst (rng_next s) < 1"
  unfolding rng_next_def Let_def fst_conv by (rule word32_unit_interval)

lemma rng_values_range: "list_all (\<lambda>v. 0 \<le> v \<and> v < 1) (rng_values s n)"
  by (induction n arbitrary: s) (simp_all add: rng_next_range)


lemma hashSeed_test: "hashSeed (codeUnits ''test'') = 2949673445"
  by (simp add: hashSeed_def codeUnits_def)

lemma rng_values_test:
  "rng_values (createSeededRng (codeUnits ''test'')) 2 =
     [3079946387 / 4294967296, 1488242721 / 4294967296]"
proof -
  have r1: "rng_next 2949673445 = (3079946387 / 4294967296, 4781239258)"
    by (simp add: rng_next_def Let_def)
  have r2: "rng_next 4781239258 = (1488242721 / 4294967296, 6612805071)"
    by (simp add: rng_next_def Let_def)
  have two: "rng_values s 2 = [fst (rng_next s), fst (rng_next (snd (rng_next s)))]" for s
    by (simp add: numeral_2_eq_2)
  show ?thesis
    unfolding two by (simp add: createSeededRng_def hashSeed_test Let_def r1 r2)
qed

subsection \<open>The closures and the sources passed along\<close>

lemma jitterFactorS_Some:
  "a < length h \<Longrightarrow>
   jitterFactorS amount (Some a) h =
     (fst (jitterFactor amount (Some (h ! a))), h[a := snd (rng_next (h ! a))])"
  by (simp add: jitterFactorS_def jitterFactor_def rngS_def)

lemma jitterFactor_Some_snd:
  "snd (jitterFactor amount (Some s)) = Some (snd (rng_next s))"
  by (simp add: jitterFactor_def)

lemma edgeShapeS_fst:
  assumes "rng options = Some a" "a < length h"
  shows "fst (edgeShapeS safeLength options h) = edgeShape safeLength (options\<lparr>rng := Some (h ! a)\<rparr>)"
  using assms
  by (simp add: edgeShapeS_def edgeShape_def Let_def jitterFactorS_Some jitterFactor_Some_snd)

lemma makeEdgeProfileS_flat:
  "makeEdgeProfileS Flat len options h = (makeEdgeProfile Flat len options, h)"
  by (simp add: makeEdgeProfileS_def makeEdgeProfile_def Let_def)

lemma makeEdgeProfileS_fst:
  assumes "a < length h"
  shows "fst (makeEdgeProfileS k len (makeEdgeOptionsForLength len' minDim preset options a) h) =
           makeEdgeProfile k len (makeEdgeOptionsForLength len' minDim preset options (h ! a))"
proof -
  have r: "rng (makeEdgeOptionsForLength len' minDim preset options a) = Some a"
    by (simp add: makeEdgeOptionsForLength_def)
  have o: "(makeEdgeOptionsForLength len' minDim preset options a)\<lparr>rng := Some (h ! a)\<rparr> =
             makeEdgeOptionsForLength len' minDim preset options (h ! a)"
    by (simp add: makeEdgeOptionsForLength_def)
  show ?thesis
    unfolding makeEdgeProfileS_def makeEdgeProfile_def Let_def
    by (simp add: edgeShapeS_fst[OF r assms] o)
qed

lemma seamProfileS_fst:
  "fst (seamProfileS baseSeed orientation r c len minDim preset options h) =
     seamProfile baseSeed orientation r c len minDim preset options"
  unfolding seamProfileS_def seamProfile_def Let_def createSeededRngS_def rngS_def
  by (simp add: makeEdgeProfileS_fst)

lemma verticalSeamS_fst:
  "fst (verticalSeamS baseSeed ph minDim preset options r gh c) =
     verticalSeam baseSeed ph minDim preset options r (fst gh) c"
  by (simp add: verticalSeamS_def verticalSeam_def Let_def seamProfileS_fst)

lemma horizontalSeamS_fst:
  "fst (horizontalSeamS baseSeed pw minDim preset options r gh c) =
     horizontalSeam baseSeed pw minDim preset options r (fst gh) c"
  by (simp add: horizontalSeamS_def horizontalSeam_def Let_def seamProfileS_fst)

lemma foldl_fst:
  assumes "\<And>x y. fst (F x y) = f (fst x) y"
  shows "fst (foldl F x ys) = foldl f (fst x) ys"
  using assms by (induction ys arbitrary: x) simp_all

lemma pieceEdgesGridS_fst:
  "fst (pieceEdgesGridS nrows ncols pw ph options h) = pieceEdgesGrid nrows ncols pw ph options"
  unfolding pieceEdgesGridS_def pieceEdgesGrid_def Let_def makeEdgeProfileS_flat
  by (simp add: foldl_fst verticalSeamS_fst horizontalSeamS_fst)

lemma createJigsawGeometryS_fst:
  "fst (createJigsawGeometryS nrows ncols pw ph options h) =
     createJigsawGeometry nrows ncols pw ph options"
  by (simp add: createJigsawGeometryS_def createJigsawGeometry_def Let_def pieceEdgesGridS_fst)

lemma valuesOf_drawsS:
  "a < length h \<Longrightarrow> valuesOf a (drawsS sched h) = rng_values (h ! a) (count_list sched a)"
proof (induction sched arbitrary: h)
  case Nil
  then show ?case by (simp add: valuesOf_def)
next
  case (Cons x xs)
  have len: "a < length (snd (rngS x h))" using Cons.prems by (simp add: rngS_def)
  show ?case
  proof (cases "x = a")
    case True
    have "snd (rngS a h) ! a = snd (rng_next (h ! a))" using Cons.prems by (simp add: rngS_def)
    with Cons.IH[OF len] True show ?thesis by (simp add: valuesOf_def rngS_def)
  next
    case False
    then have "snd (rngS x h) ! a = h ! a" by (simp add: rngS_def)
    with Cons.IH[OF len] False show ?thesis by (simp add: valuesOf_def)
  qed
qed

lemma drawsS_range: "list_all (\<lambda>d. 0 \<le> snd d \<and> snd d < 1) (drawsS sched h)"
  by (induction sched arbitrary: h) (simp_all add: rngS_def rng_next_range)

section \<open>Properties of the interaction\<close>

lemma findIndex_Some: "findIndex P xs = Some i \<Longrightarrow> i < length xs \<and> P (xs ! i)"
proof (induction xs arbitrary: i)
  case Nil
  then show ?case by simp
next
  case (Cons a xs)
  then show ?case by (auto split: if_splits option.splits)
qed

lemma in_set_update_other: "p \<in> set xs \<Longrightarrow> p \<noteq> xs ! i \<Longrightarrow> p \<in> set (xs[i := q])"
  by (metis in_set_conv_nth length_list_update nth_list_update_neq)

lemma set_bringPieceToFront: "set (bringPieceToFront ps pid) = set ps"
proof (cases "findIndex (\<lambda>piece. id_p piece = pid) ps")
  case None
  then show ?thesis by (simp add: bringPieceToFront_def)
next
  case (Some i)
  then have i: "i < length ps" by (auto dest: findIndex_Some)
  have "ps = take i ps @ ps ! i # drop (Suc i) ps" using i by (rule id_take_nth_drop)
  then have "set ps = set (take i ps) \<union> {ps ! i} \<union> set (drop (Suc i) ps)"
    by (metis list.simps(15) set_append Un_assoc insert_is_Un)
  with Some show ?thesis by (auto simp: bringPieceToFront_def)
qed



lemma piece_update_locked_kept:
  assumes "piece_update cfg e ps ps'" "p \<in> set ps" "locked p"
  shows "p \<in> set ps'"
  using assms
proof (induction rule: piece_update.induct)
  case same
  then show ?case by simp
next
  case (front pid)
  then show ?case by (simp add: set_bringPieceToFront)
next
  case (finish d pid src pointer b)
  then show ?case
    by (auto simp: finishDragPieces_def replacePieceAtIndex_def Let_def
        intro!: in_set_update_other split: option.splits)
next
  case (move pid nx ny)
  then show ?case
    by (auto simp: boardMovePieces_def replacePieceAtIndex_def Let_def
        intro!: in_set_update_other split: option.splits)
next
  case (frame pid pos)
  then show ?case
    by (auto simp: trayFramePieces_def replacePieceAtIndex_def Let_def
        intro!: in_set_update_other split: option.splits)
qed

lemma in_set_updateD: "p \<in> set (xs[i := q]) \<Longrightarrow> p = q \<or> p \<in> set xs"
  using set_update_subset_insert[of xs i q] by auto

lemma piece_update_lockedOk:
  assumes "piece_update cfg e ps ps'" "\<forall>p \<in> set ps. lockedOk p"
  shows "\<forall>p \<in> set ps'. lockedOk p"
  using assms
proof (induction rule: piece_update.induct)
  case same
  then show ?case by simp
next
  case (front pid)
  then show ?case by (simp add: set_bringPieceToFront)
next
  case (finish d pid src pointer b)
  then show ?case
    by (auto simp: finishDragPieces_def replacePieceAtIndex_def Let_def lockedOk_def
        dest!: in_set_updateD split: option.splits if_splits)
next
  case (move pid nx ny)
  then show ?case
    by (auto simp: boardMovePieces_def replacePieceAtIndex_def Let_def lockedOk_def
        dest!: in_set_updateD split: option.splits if_splits)
next
  case (frame pid pos)
  then show ?case
    by (auto simp: trayFramePieces_def replacePieceAtIndex_def Let_def lockedOk_def
        dest!: in_set_updateD split: option.splits if_splits)
qed

lemma pieces_commitEffects [simp]: "pieces (commitEffects cfg s) = pieces s"
  by (simp add: commitEffects_def solvedEffect_def Let_def)

lemma handle_piece_update:
  assumes ne: "e \<noteq> ResetPuzzle"
  shows "piece_update cfg e (pieces s) (pieces (handle cfg s e))"
proof (cases e)
  case (BoardPiecePointerDown ev pid)
  then show ?thesis
    by (auto simp: handleBoardPiecePointerDown_def Let_def intro: piece_update.intros
        split: option.splits)
next
  case (BoardPiecePointerMove ev pid)
  then show ?thesis
    by (auto simp: handleBoardPiecePointerMove_def Let_def intro: piece_update.intros
        split: option.splits)
next
  case (BoardPiecePointerUp ev pid)
  then show ?thesis
    by (auto simp: handleBoardPiecePointerUp_def finishDrag_def Let_def intro: piece_update.intros
        split: option.splits)
next
  case (BoardPiecePointerCancel ev pid)
  then show ?thesis
    by (auto simp: handleBoardPiecePointerCancel_def cancelDrag_def intro: piece_update.intros)
next
  case (TrayPiecePointerDown ev pid)
  then show ?thesis
    by (auto simp: handleTrayPiecePointerDown_def Let_def intro: piece_update.intros
        split: option.splits)
next
  case (TrayPiecePointerMove ev pid)
  then show ?thesis
    by (auto simp: handleTrayPiecePointerMove_def Let_def intro: piece_update.intros
        split: option.splits)
next
  case (TrayPiecePointerUp ev pid)
  then show ?thesis
    by (auto simp: handleTrayPiecePointerUp_def finishDrag_def Let_def intro: piece_update.intros
        split: option.splits)
next
  case (TrayPiecePointerCancel ev pid)
  then show ?thesis
    by (auto simp: handleTrayPiecePointerCancel_def cancelDrag_def intro: piece_update.intros)
next
  case (AnimationFrame found)
  then show ?thesis
    by (auto simp: animationFrame_def Let_def intro: piece_update.intros split: option.splits)
next
  case (ParentRender f)
  then show ?thesis by (simp add: piece_update.same)
next
  case ResetPuzzle
  with ne show ?thesis by simp
qed







lemma createInitialPieces_unlocked: "p \<in> set (createInitialPieces nr nc pw ph order) \<Longrightarrow> \<not> locked p"
  by (auto simp: createInitialPieces_def)






lemma boardMovePieces_new:
  "p \<in> set (boardMovePieces pid nx ny ps) \<Longrightarrow> locked p \<Longrightarrow> p \<in> set ps"
  by (auto simp: boardMovePieces_def replacePieceAtIndex_def Let_def
      dest!: in_set_updateD split: option.splits if_splits)

lemma trayFramePieces_new:
  "p \<in> set (trayFramePieces pid pos ps) \<Longrightarrow> locked p \<Longrightarrow> p \<in> set ps"
  by (auto simp: trayFramePieces_def replacePieceAtIndex_def Let_def
      dest!: in_set_updateD split: option.splits if_splits)

lemma finishDragPieces_new:
  "p \<in> set (finishDragPieces cfg d pid src pointer b ps) \<Longrightarrow> locked p \<Longrightarrow> p \<notin> set ps \<Longrightarrow>
   location p = Board \<and> x_p p = tx p \<and> y_p p = ty p"
  by (auto simp: finishDragPieces_def replacePieceAtIndex_def Let_def
      dest!: in_set_updateD split: option.splits if_splits)

lemma piece_update_newly_locked:
  assumes "piece_update cfg e ps ps'" "p \<in> set ps'" "locked p" "p \<notin> set ps"
  shows "isDragEnd e \<and> location p = Board \<and> x_p p = tx p \<and> y_p p = ty p"
  using assms
proof (induction rule: piece_update.induct)
  case same
  then show ?case by simp
next
  case (front pid)
  then show ?case by (simp add: set_bringPieceToFront)
next
  case (finish d pid src pointer b)
  then show ?case using finishDragPieces_new by blast
next
  case (move pid nx ny)
  then show ?case using boardMovePieces_new by blast
next
  case (frame pid pos)
  then show ?case using trayFramePieces_new by blast
qed

lemma step_newly_locked:
  assumes "p \<in> set (pieces (step cfg s e))" "locked p" "p \<notin> set (pieces s)"
  shows "isDragEnd e \<and> location p = Board \<and> x_p p = tx p \<and> y_p p = ty p"
proof (cases "e = ResetPuzzle")
  case True
  with assms show ?thesis
    by (auto simp: step_def resetPuzzle_def dest: createInitialPieces_unlocked)
next
  case False
  then have "piece_update cfg e (pieces s) (pieces (handle cfg s e))" by (rule handle_piece_update)
  from piece_update_newly_locked [OF this] assms show ?thesis by (simp add: step_def)
qed

lemma step_lockedOk:
  assumes "\<forall>p \<in> set (pieces s). lockedOk p"
  shows "\<forall>p \<in> set (pieces (step cfg s e)). lockedOk p"
proof (cases "e = ResetPuzzle")
  case True
  then show ?thesis
    by (auto simp: step_def resetPuzzle_def lockedOk_def dest: createInitialPieces_unlocked)
next
  case False
  then have "piece_update cfg e (pieces s) (pieces (handle cfg s e))" by (rule handle_piece_update)
  from piece_update_lockedOk[OF this assms] show ?thesis by (simp add: step_def)
qed

lemma run_lockedOk:
  "\<forall>p \<in> set (pieces s). lockedOk p \<Longrightarrow> \<forall>p \<in> set (pieces (run cfg s es)). lockedOk p"
  unfolding run_def
proof (induction es arbitrary: s)
  case Nil
  then show ?case by simp
next
  case (Cons e es)
  then show ?case using step_lockedOk[of s cfg e] by simp
qed

lemma mount_lockedOk: "\<forall>p \<in> set (pieces (mountPuzzle cfg)). lockedOk p"
  by (auto simp: mountPuzzle_def resetPuzzle_def lockedOk_def dest: createInitialPieces_unlocked)

lemma natToString_digit: "n < 10 \<Longrightarrow> natToString n = [''0123456789'' ! n]"
  by (simp add: natToString.simps)

lemma pieces_finishDrag:
  "boardSvg ev = Some rect \<Longrightarrow>
   pieces (finishDrag cfg s pid src ev) =
     finishDragPieces cfg (if eagerUpdate ev then dragStateRef s else None) pid src
       (clientToBoard (clientX ev) (clientY ev) rect (boardWidth cfg) (boardHeight cfg))
       (pointInBoard (fst (clientToBoard (clientX ev) (clientY ev) rect (boardWidth cfg) (boardHeight cfg)))
          (snd (clientToBoard (clientX ev) (clientY ev) rect (boardWidth cfg) (boardHeight cfg)))
          (boardWidth cfg) (boardHeight cfg))
       (pieces s)"
  by (simp add: finishDrag_def Let_def)

lemma run_locked_kept:
  "ResetPuzzle \<notin> set es \<Longrightarrow> p \<in> set (pieces s) \<Longrightarrow> locked p \<Longrightarrow> p \<in> set (pieces (run cfg s es))"
  unfolding run_def
proof (induction es arbitrary: s)
  case Nil
  then show ?case by simp
next
  case (Cons e es)
  from Cons.prems have ne: "e \<noteq> ResetPuzzle" by auto
  have "p \<in> set (pieces (step cfg s e))"
    using piece_update_locked_kept[OF handle_piece_update[OF ne] Cons.prems(2,3)]
    by (simp add: step_def)
  with Cons show ?case by simp
qed


lemmas example_run_defs =
  run_def step_def mountPuzzle_def resetPuzzle_def exampleOptions_def gridRows_def gridCols_def
  getGridForDifficulty_def pieceWidth_def pieceHeight_def commitEffects_def solvedEffect_def
  initialHookState_def isSolved_def lockedCount_def totalPieces_def
  createInitialPieces_def upt_rec natToString_digit trayOrderIndex_def
  handleTrayPiecePointerDown_def handleTrayPiecePointerUp_def touchAt_def Let_def clamp_def
  bringPieceToFront_def dragMatches_def finishDrag_def finishDragPieces_def clientToBoard_def
  pointInBoard_def dropPosition_def dropOffset_def distance_def replacePieceAtIndex_def
  grabAndDrop_def solveAll_def






lemma sqrt_3200: "\<not> sqrt 3200 \<le> 20"
proof
  assume "sqrt 3200 \<le> 20"
  then have "(sqrt 3200)\<^sup>2 \<le> 20\<^sup>2" by (intro power_mono) simp_all
  then show False by simp
qed


lemma grabAndDrop_locks:
  "pieces (run exampleOptions (mountPuzzle exampleOptions) (grabAndDrop 0 0)) ! 8 =
     \<lparr>id_p = ''0-0'', row = 0, col = 0, location = Board, x_p = 0, y_p = 0, tx = 0, ty = 0,
      traySlot = None, locked = True\<rparr> \<and>
   length (pieces (run exampleOptions (mountPuzzle exampleOptions) (grabAndDrop 0 0))) = 9"
  by (simp add: example_run_defs)


lemma grab_leaves_unlocked:
  "list_all (\<lambda>q. \<not> locked q)
     (pieces (run exampleOptions (mountPuzzle exampleOptions)
                [TrayPiecePointerDown (touchAt 10 10) ''0-0'']))"
  by (simp add: example_run_defs)

section \<open>The claims\<close>

text \<open>
  C9, as the code has it: for every kind and every length, the profile that
  \<open>makeEdgeProfile\<close> returns has segments, the first one starts at (0,0) and the last one
  ends at (L, 0), where L is the \<open>length\<close> field of the returned profile: the given length
  raised to at least 1, and rounded to three decimals for a tab or a slot. So the last
  segment ends at (length, 0) for every given length of at least 1 with at most three
  decimals. A length of at most 0 is not rejected: the profile returned has length 1.
\<close>

theorem C9_profile_endpoints:
  "segments (makeEdgeProfile k len options) \<noteq> [] \<and>
   start (hd (segments (makeEdgeProfile k len options))) = \<lparr>px = 0, py = 0\<rparr> \<and>
   end_p (last (segments (makeEdgeProfile k len options))) =
     \<lparr>px = length_p (makeEdgeProfile k len options), py = 0\<rparr> \<and>
   length_p (makeEdgeProfile k len options) =
     (if k = Flat then max 1 len else round3 (max 1 len)) \<and>
   1 \<le> length_p (makeEdgeProfile k len options) \<and>
   (1 \<le> len \<and> round3 len = len \<longrightarrow>
      end_p (last (segments (makeEdgeProfile k len options))) = \<lparr>px = len, py = 0\<rparr>) \<and>
   (len \<le> 0 \<longrightarrow> length_p (makeEdgeProfile k len options) = 1)"
proof -
  let ?p = "makeEdgeProfile k len options"
  have base: "segments ?p \<noteq> [] \<and> start (hd (segments ?p)) = \<lparr>px = 0, py = 0\<rparr> \<and>
              end_p (last (segments ?p)) = \<lparr>px = length_p ?p, py = 0\<rparr> \<and>
              length_p ?p = (if k = Flat then max 1 len else round3 (max 1 len)) \<and>
              1 \<le> length_p ?p \<and> (len \<le> 0 \<longrightarrow> length_p ?p = 1)"
  proof (cases "k = Flat")
    case True
    then show ?thesis by (simp add: makeEdgeProfile_flat makeLinearProfile_def Let_def)
  next
    case False
    have ne: "curveSegments k (max 1 len) options \<noteq> []"
      using curveSegments_length[of k "max 1 len" options] by auto
    have r1: "1 \<le> round3 (max 1 len)"
      by (rule round3_ge_1) simp
    have r0: "len \<le> 0 \<Longrightarrow> round3 (max 1 len) = 1"
      by (simp add: round3_def max_def)
    from False ne r1 r0 show ?thesis
      by (simp add: makeEdgeProfile_curve hd_map last_map roundSegment_def roundPoint_def
          curveSegments_hd curveSegments_last round3_zero)
  qed
  have ext: "1 \<le> len \<and> round3 len = len \<longrightarrow> end_p (last (segments ?p)) = \<lparr>px = len, py = 0\<rparr>"
  proof
    assume a: "1 \<le> len \<and> round3 len = len"
    then have "max 1 len = len" by simp
    with a base have "length_p ?p = len" by (simp split: if_splits)
    with base show "end_p (last (segments ?p)) = \<lparr>px = len, py = 0\<rparr>" by simp
  qed
  from base ext show ?thesis by blast
qed

theorem C9_profile_endpoints_witness:
  "(1 :: real) \<le> 100 \<and> round3 100 = 100 \<and>
   end_p (last (segments (makeEdgeProfile Tab 100
     \<lparr>minDimension = 100, tabDepth = None, tabWidth = None, neckWidth = None,
      bulbRoundness = None, shoulderSmoothness = None, jitter = None, rng = None\<rparr>))) =
     \<lparr>px = 100, py = 0\<rparr> \<and>
   (- 5 :: real) \<le> 0 \<and>
   length_p (makeEdgeProfile Tab (- 5)
     \<lparr>minDimension = 100, tabDepth = None, tabWidth = None, neckWidth = None,
      bulbRoundness = None, shoulderSmoothness = None, jitter = None, rng = None\<rparr>) = 1 \<and>
   end_p (last (segments (makeEdgeProfile Tab (- 5)
     \<lparr>minDimension = 100, tabDepth = None, tabWidth = None, neckWidth = None,
      bulbRoundness = None, shoulderSmoothness = None, jitter = None, rng = None\<rparr>))) =
     \<lparr>px = 1, py = 0\<rparr>"
proof -
  have r: "round3 100 = 100" by (simp add: round3_def)
  from C9_profile_endpoints [of Tab 100
      "\<lparr>minDimension = 100, tabDepth = None, tabWidth = None, neckWidth = None,
        bulbRoundness = None, shoulderSmoothness = None, jitter = None, rng = None\<rparr>"]
    C9_profile_endpoints [of Tab "- 5"
      "\<lparr>minDimension = 100, tabDepth = None, tabWidth = None, neckWidth = None,
        bulbRoundness = None, shoulderSmoothness = None, jitter = None, rng = None\<rparr>"]
    r
  show ?thesis by simp
qed

text \<open>
  C9 as stated fails. For the positive length 0.5 the flat profile ends at (1, 0), not at
  (0.5, 0); for the length 10.0004 the tab profile ends at (10, 0), not at (10.0004, 0).
\<close>

theorem C9_end_counterexample:
  "end_p (last (segments (makeEdgeProfile Flat (1 / 2)
     \<lparr>minDimension = 100, tabDepth = None, tabWidth = None, neckWidth = None,
      bulbRoundness = None, shoulderSmoothness = None, jitter = None, rng = None\<rparr>))) =
     \<lparr>px = 1, py = 0\<rparr> \<and>
   end_p (last (segments (makeEdgeProfile Flat (1 / 2)
     \<lparr>minDimension = 100, tabDepth = None, tabWidth = None, neckWidth = None,
      bulbRoundness = None, shoulderSmoothness = None, jitter = None, rng = None\<rparr>))) \<noteq>
     \<lparr>px = 1 / 2, py = 0\<rparr> \<and>
   end_p (last (segments (makeEdgeProfile Tab (100004 / 10000)
     \<lparr>minDimension = 100, tabDepth = None, tabWidth = None, neckWidth = None,
      bulbRoundness = None, shoulderSmoothness = None, jitter = None, rng = None\<rparr>))) =
     \<lparr>px = 10, py = 0\<rparr> \<and>
   end_p (last (segments (makeEdgeProfile Tab (100004 / 10000)
     \<lparr>minDimension = 100, tabDepth = None, tabWidth = None, neckWidth = None,
      bulbRoundness = None, shoulderSmoothness = None, jitter = None, rng = None\<rparr>))) \<noteq>
     \<lparr>px = 100004 / 10000, py = 0\<rparr>"
proof -
  have f: "end_p (last (segments (makeEdgeProfile Flat (1 / 2) opts))) = \<lparr>px = 1, py = 0\<rparr>" for opts
    by (simp add: makeEdgeProfile_flat makeLinearProfile_def Let_def)
  have ne: "curveSegments Tab (max 1 (100004 / 10000)) opts \<noteq> []" for opts
    using curveSegments_length [of Tab "max 1 (100004 / 10000)" opts] by auto
  have t: "end_p (last (segments (makeEdgeProfile Tab (100004 / 10000) opts))) = \<lparr>px = 10, py = 0\<rparr>"
    for opts
    using ne [of opts]
    by (simp add: makeEdgeProfile_curve last_map roundSegment_def roundPoint_def
        curveSegments_last round3_def)
  show ?thesis unfolding f t by simp
qed

text \<open>
  C8, as the code has it: \<open>makeEdgeProfile\<close> first raises the length and \<open>minDimension\<close> to
  at least 1. With these raised values, the jitter amount lies in [0, 0.12], the depth
  computed lies in [0.18, 0.26] times \<open>minDimension\<close>, the tab width lies between 0.34
  times the length and the length less twice the corner margin, and the neck width lies in
  [0.38, 0.78] times the tab width. The \<open>depth\<close> field of the profile is the computed depth,
  with the sign of the kind, rounded to three decimals.
\<close>

theorem C8_shape_bounds:
  "0 \<le> jitterAmount (edgeShape (max 1 len) options) \<and>
   jitterAmount (edgeShape (max 1 len) options) \<le> 12 / 100 \<and>
   max 1 (minDimension options) * (18 / 100) \<le> depthAbs (edgeShape (max 1 len) options) \<and>
   depthAbs (edgeShape (max 1 len) options) \<le> max 1 (minDimension options) * (26 / 100) \<and>
   max 1 len * (34 / 100) \<le> tabWidth_s (edgeShape (max 1 len) options) \<and>
   tabWidth_s (edgeShape (max 1 len) options) \<le>
     max 1 len - cornerSafeMargin (edgeShape (max 1 len) options) * 2 \<and>
   tabWidth_s (edgeShape (max 1 len) options) * (38 / 100) \<le>
     neckWidth_s (edgeShape (max 1 len) options) \<and>
   neckWidth_s (edgeShape (max 1 len) options) \<le>
     tabWidth_s (edgeShape (max 1 len) options) * (78 / 100) \<and>
   depth (makeEdgeProfile Tab len options) = round3 (depthAbs (edgeShape (max 1 len) options)) \<and>
   depth (makeEdgeProfile Slot len options) =
     round3 (- depthAbs (edgeShape (max 1 len) options))"
proof -
  have pos: "0 < max 1 len" by simp
  show ?thesis
    using edgeShape_jitter[of "max 1 len" options] edgeShape_depth[of options "max 1 len"]
      edgeShape_tabWidth[OF pos, of options] edgeShape_neckWidth[OF pos, of options]
    by (simp add: makeEdgeProfile_curve)
qed

text \<open>
  C8 as stated fails. With \<open>minDimension = 0.5\<close> the depth of the profile is 0.22, above
  0.26 times 0.5; and with \<open>minDimension = 1.001\<close> and \<open>tabDepth = 0\<close> the depth of the
  profile is 0.18 in absolute value, below 0.18 times 1.001, since it is rounded.
\<close>

theorem C8_depth_counterexample:
  "\<not> \<bar>depth (makeEdgeProfile Tab 100
        \<lparr>minDimension = 1 / 2, tabDepth = None, tabWidth = None, neckWidth = None,
         bulbRoundness = None, shoulderSmoothness = None, jitter = None, rng = None\<rparr>)\<bar>
      \<le> 26 / 100 * (1 / 2) \<and>
   \<not> 18 / 100 * (1001 / 1000)
      \<le> \<bar>depth (makeEdgeProfile Slot 100
           \<lparr>minDimension = 1001 / 1000, tabDepth = Some 0, tabWidth = None, neckWidth = None,
            bulbRoundness = None, shoulderSmoothness = None, jitter = None, rng = None\<rparr>)\<bar>"
  by (simp add: makeEdgeProfile_curve depthAbs_edgeShape jitterFactor_def orElse_def clamp_def
      round3_def)

text \<open>
  C1: in the grid that \<open>createJigsawGeometry\<close> builds, the left profile of cell
  \<open>(r, c + 1)\<close> is \<open>reverseEdgeProfile (invertEdgeProfile p)\<close> for the right profile \<open>p\<close> of cell
  \<open>(r, c)\<close>, and the bottom profile of cell \<open>(r, c)\<close> is the same transform of the top
  profile of cell \<open>(r + 1, c)\<close>. On these profiles, whose coordinates have three decimals,
  the transform is exactly the one of the specification: tab and slot flipped, every y
  coordinate and the depth negated, the segments in reverse order, every x coordinate
  mirrored about half the length, start swapped with end and cp1 with cp2.
\<close>

theorem C1_seams_match:
  "(r < nrows \<and> c + 1 < ncols \<longrightarrow>
      left_p (pieceEdgesGrid nrows ncols pw ph opts ! r ! (c + 1)) =
        reverseEdgeProfile (invertEdgeProfile (right_p (pieceEdgesGrid nrows ncols pw ph opts ! r ! c))) \<and>
      left_p (pieceEdgesGrid nrows ncols pw ph opts ! r ! (c + 1)) =
        spec_reverse (spec_invert (right_p (pieceEdgesGrid nrows ncols pw ph opts ! r ! c))) \<and>
      kind (right_p (pieceEdgesGrid nrows ncols pw ph opts ! r ! c)) \<noteq> Flat) \<and>
   (r + 1 < nrows \<and> c < ncols \<longrightarrow>
      bottom_p (pieceEdgesGrid nrows ncols pw ph opts ! r ! c) =
        reverseEdgeProfile (invertEdgeProfile (top_p (pieceEdgesGrid nrows ncols pw ph opts ! (r + 1) ! c))) \<and>
      bottom_p (pieceEdgesGrid nrows ncols pw ph opts ! r ! c) =
        spec_reverse (spec_invert (top_p (pieceEdgesGrid nrows ncols pw ph opts ! (r + 1) ! c))) \<and>
      kind (top_p (pieceEdgesGrid nrows ncols pw ph opts ! (r + 1) ! c)) \<noteq> Flat)"
proof (intro conjI impI)
  assume a: "r < nrows \<and> c + 1 < ncols"
  then have c: "c < ncols" by simp
  from a have rc: "right_p (pieceEdgesGrid nrows ncols pw ph opts ! r ! c) =
      seamProfile (orElse (seed_g opts) (codeUnits ''ionic-jigsaw'')) ''vertical'' r c ph (min pw ph)
        (JIGSAW_PRESETS (orElse (preset_g opts) realistaSuave)) opts"
    using c by (simp add: pieceEdgesGrid_cell Let_def)
  from a have lc: "left_p (pieceEdgesGrid nrows ncols pw ph opts ! r ! (c + 1)) =
      invertAndReverseEdgeProfile
        (seamProfile (orElse (seed_g opts) (codeUnits ''ionic-jigsaw'')) ''vertical'' r c ph (min pw ph)
           (JIGSAW_PRESETS (orElse (preset_g opts) realistaSuave)) opts)"
    by (simp add: pieceEdgesGrid_cell Let_def)
  show "left_p (pieceEdgesGrid nrows ncols pw ph opts ! r ! (c + 1)) =
        reverseEdgeProfile (invertEdgeProfile (right_p (pieceEdgesGrid nrows ncols pw ph opts ! r ! c)))"
    unfolding rc lc by (simp add: invertAndReverseEdgeProfile_def)
  show "left_p (pieceEdgesGrid nrows ncols pw ph opts ! r ! (c + 1)) =
        spec_reverse (spec_invert (right_p (pieceEdgesGrid nrows ncols pw ph opts ! r ! c)))"
    unfolding rc lc by (rule invertAndReverse_exact[OF seamProfile_is3])
  show "kind (right_p (pieceEdgesGrid nrows ncols pw ph opts ! r ! c)) \<noteq> Flat"
    unfolding rc by (rule seamProfile_kind)
next
  assume a: "r + 1 < nrows \<and> c < ncols"
  then have r: "r < nrows" by simp
  from a have tc: "top_p (pieceEdgesGrid nrows ncols pw ph opts ! (r + 1) ! c) =
      seamProfile (orElse (seed_g opts) (codeUnits ''ionic-jigsaw'')) ''horizontal'' r c pw (min pw ph)
        (JIGSAW_PRESETS (orElse (preset_g opts) realistaSuave)) opts"
    by (simp add: pieceEdgesGrid_cell Let_def)
  from a have bc: "bottom_p (pieceEdgesGrid nrows ncols pw ph opts ! r ! c) =
      invertAndReverseEdgeProfile
        (seamProfile (orElse (seed_g opts) (codeUnits ''ionic-jigsaw'')) ''horizontal'' r c pw (min pw ph)
           (JIGSAW_PRESETS (orElse (preset_g opts) realistaSuave)) opts)"
    using r by (simp add: pieceEdgesGrid_cell Let_def)
  show "bottom_p (pieceEdgesGrid nrows ncols pw ph opts ! r ! c) =
        reverseEdgeProfile (invertEdgeProfile (top_p (pieceEdgesGrid nrows ncols pw ph opts ! (r + 1) ! c)))"
    unfolding tc bc by (simp add: invertAndReverseEdgeProfile_def)
  show "bottom_p (pieceEdgesGrid nrows ncols pw ph opts ! r ! c) =
        spec_reverse (spec_invert (top_p (pieceEdgesGrid nrows ncols pw ph opts ! (r + 1) ! c)))"
    unfolding tc bc by (rule invertAndReverse_exact[OF seamProfile_is3])
  show "kind (top_p (pieceEdgesGrid nrows ncols pw ph opts ! (r + 1) ! c)) \<noteq> Flat"
    unfolding tc by (rule seamProfile_kind)
qed

theorem C1_seams_match_witness:
  "(0 :: nat) < 2 \<and> (0 :: nat) + 1 < 2 \<and>
   left_p (pieceEdgesGrid 2 2 100 100 noOptions ! 0 ! (0 + 1)) =
     reverseEdgeProfile (invertEdgeProfile (right_p (pieceEdgesGrid 2 2 100 100 noOptions ! 0 ! 0))) \<and>
   left_p (pieceEdgesGrid 2 2 100 100 noOptions ! 0 ! (0 + 1)) =
     spec_reverse (spec_invert (right_p (pieceEdgesGrid 2 2 100 100 noOptions ! 0 ! 0))) \<and>
   bottom_p (pieceEdgesGrid 2 2 100 100 noOptions ! 0 ! 0) =
     reverseEdgeProfile (invertEdgeProfile (top_p (pieceEdgesGrid 2 2 100 100 noOptions ! (0 + 1) ! 0))) \<and>
   bottom_p (pieceEdgesGrid 2 2 100 100 noOptions ! 0 ! 0) =
     spec_reverse (spec_invert (top_p (pieceEdgesGrid 2 2 100 100 noOptions ! (0 + 1) ! 0)))"
proof -
  have h1: "(0 :: nat) < 2 \<and> (0 :: nat) + 1 < 2" by simp
  have h2: "(0 :: nat) + 1 < 2 \<and> (0 :: nat) < 2" by simp
  from C1_seams_match [of 0 2 0 2 100 100 noOptions] h1 h2 show ?thesis by blast
qed

text \<open>
  C2: \<open>createJigsawGeometry\<close> with the random sources as closures with state. Whatever
  closures were made before and whatever their states (the store), the call returns the
  same list of pieces, with the same paths (a path being its list of commands), and so
  does a second call after the first; the list is the one of \<open>createJigsawGeometry\<close>
  above. Two sources made from the same seed, any list of code units, are two closures,
  and in every order of calls to the closures of the store each of the two returns the
  sequence that the seed determines: after k calls a source has returned the first k
  values of that sequence, however the calls of the other closures fall between its own.
  Every value that a closure returns lies in [0, 1).
\<close>

theorem C2_deterministic:
  "fst (createJigsawGeometryS nrows ncols pw ph opts h) =
     fst (createJigsawGeometryS nrows ncols pw ph opts h') \<and>
   map path (fst (createJigsawGeometryS nrows ncols pw ph opts h)) =
     map path (fst (createJigsawGeometryS nrows ncols pw ph opts h')) \<and>
   fst (createJigsawGeometryS nrows ncols pw ph opts
          (snd (createJigsawGeometryS nrows ncols pw ph opts h))) =
     fst (createJigsawGeometryS nrows ncols pw ph opts h) \<and>
   fst (createJigsawGeometryS nrows ncols pw ph opts h) =
     createJigsawGeometry nrows ncols pw ph opts \<and>
   (let first = createSeededRngS seed h;
        second = createSeededRngS seed (snd first)
    in fst first \<noteq> fst second \<and>
       valuesOf (fst first) (drawsS sched (snd second)) =
         rng_values (createSeededRng seed) (count_list sched (fst first)) \<and>
       valuesOf (fst second) (drawsS sched (snd second)) =
         rng_values (createSeededRng seed) (count_list sched (fst second))) \<and>
   list_all (\<lambda>d. 0 \<le> snd d \<and> snd d < 1) (drawsS sched h)"
proof -
  let ?h2 = "(h @ [createSeededRng seed]) @ [createSeededRng seed]"
  have a: "valuesOf (length h) (drawsS sched ?h2) =
             rng_values (createSeededRng seed) (count_list sched (length h))"
    using valuesOf_drawsS [of "length h" ?h2 sched] by (simp add: nth_append)
  have b: "valuesOf (Suc (length h)) (drawsS sched ?h2) =
             rng_values (createSeededRng seed) (count_list sched (Suc (length h)))"
    using valuesOf_drawsS [of "Suc (length h)" ?h2 sched] by (simp add: nth_append)
  from a b show ?thesis
    by (simp add: createJigsawGeometryS_fst createSeededRngS_def Let_def drawsS_range)
qed

text \<open>
  Two calls with different stores; and two sources made from the seed \<open>test\<close>, called in
  the order first, second, second, first: each returns the same two values.
\<close>

theorem C2_deterministic_witness:
  "fst (createJigsawGeometryS 3 3 100 100 noOptions []) =
     fst (createJigsawGeometryS 3 3 100 100 noOptions [7, 9]) \<and>
   createSeededRngS (codeUnits ''test'') [] = (0, [createSeededRng (codeUnits ''test'')]) \<and>
   createSeededRngS (codeUnits ''test'') [createSeededRng (codeUnits ''test'')] =
     (1, [createSeededRng (codeUnits ''test''), createSeededRng (codeUnits ''test'')]) \<and>
   valuesOf 0 (drawsS [0, 1, 1, 0]
                 [createSeededRng (codeUnits ''test''), createSeededRng (codeUnits ''test'')]) =
     [3079946387 / 4294967296, 1488242721 / 4294967296] \<and>
   valuesOf 1 (drawsS [0, 1, 1, 0]
                 [createSeededRng (codeUnits ''test''), createSeededRng (codeUnits ''test'')]) =
     [3079946387 / 4294967296, 1488242721 / 4294967296]"
proof -
  let ?s = "createSeededRng (codeUnits ''test'')"
  have c: "count_list [0, Suc 0, Suc 0, 0] (0::nat) = 2" "count_list [0, Suc 0, Suc 0, 0] (Suc 0) = 2"
    by simp_all
  have st: "createSeededRngS (codeUnits ''test'') [] = (0, [?s])"
    "createSeededRngS (codeUnits ''test'') [?s] = (1, [?s, ?s])"
    by (simp_all add: createSeededRngS_def)
  from C2_deterministic [of 3 3 100 100 noOptions "[]" "[7, 9]" "codeUnits ''test''"
      "[0, 1, 1, 0]"]
  have "fst (createJigsawGeometryS 3 3 100 100 noOptions []) =
          fst (createJigsawGeometryS 3 3 100 100 noOptions [7, 9]) \<and>
        valuesOf 0 (drawsS [0, 1, 1, 0] [?s, ?s]) = rng_values ?s 2 \<and>
        valuesOf 1 (drawsS [0, 1, 1, 0] [?s, ?s]) = rng_values ?s 2"
    unfolding st Let_def fst_conv snd_conv One_nat_def c by blast
  with st rng_values_test show ?thesis by simp
qed

text \<open>
  C6, as the code has it: the path of every piece starts with a move to (0,0), and every
  edge of a piece on the perimeter of the grid is flat. When the piece height is at least
  1 and has at most three decimals, the last curve ends at (0,0), before the closing
  command: the left edge then has the piece height as its length, and the difference that
  \<open>buildPiecePath\<close> rounds is exactly 0.
\<close>

theorem C6_path_closes:
  assumes "g \<in> set (createJigsawGeometry nrows ncols pw ph opts)"
  shows "pathStartPoint (path g) = Some \<lparr>px = 0, py = 0\<rparr> \<and>
         (1 \<le> ph \<and> round3 ph = ph \<longrightarrow> pathEndPoint (path g) = Some \<lparr>px = 0, py = 0\<rparr>) \<and>
         (row_g g = 0 \<longrightarrow> top_k (edges g) = Flat) \<and>
         (col_g g + 1 = ncols \<longrightarrow> right_k (edges g) = Flat) \<and>
         (row_g g + 1 = nrows \<longrightarrow> bottom_k (edges g) = Flat) \<and>
         (col_g g = 0 \<longrightarrow> left_k (edges g) = Flat)"
proof -
  from assms obtain i j where ij: "i < nrows" "j < ncols"
    and g: "g = pieceGeometry pw ph i j (pieceEdgesGrid nrows ncols pw ph opts ! i ! j)"
    by (auto simp: createJigsawGeometry_set)
  have st: "pathStartPoint (path g) = Some \<lparr>px = 0, py = 0\<rparr>"
    by (simp add: g pieceGeometry_def pathStart_build)
  have en: "pathEndPoint (path g) = Some \<lparr>px = 0, py = 0\<rparr>" if "1 \<le> ph" "round3 ph = ph"
    using that by (simp add: g pieceGeometry_def path_end_cell[OF ij] max_def round3_zero)
  have fl: "kind (makeLinearProfile L) = Flat" for L by (simp add: makeLinearProfile_def Let_def)
  have ks: "(i = 0 \<longrightarrow> top_k (edges g) = Flat) \<and> (j + 1 = ncols \<longrightarrow> right_k (edges g) = Flat) \<and>
            (i + 1 = nrows \<longrightarrow> bottom_k (edges g) = Flat) \<and> (j = 0 \<longrightarrow> left_k (edges g) = Flat)"
    unfolding g pieceGeometry_def buildEdgeKinds_def pieceEdgesGrid_cell[OF ij]
    by (simp add: Let_def fl)
  have rc: "row_g g = i" "col_g g = j" by (simp_all add: g pieceGeometry_def)
  from st en ks show ?thesis unfolding rc by blast
qed

text \<open>
  On a 2 x 2 grid of pieces of 100 x 100: piece (0,0) has a flat top and a flat left edge,
  piece (1,1) has a top and a left edge derived from the seams and a flat right and bottom
  edge; both paths start and end at (0,0).
\<close>

theorem C6_path_closes_witness:
  "createJigsawGeometry 2 2 100 100 noOptions ! 0 \<in> set (createJigsawGeometry 2 2 100 100 noOptions) \<and>
   createJigsawGeometry 2 2 100 100 noOptions ! 3 \<in> set (createJigsawGeometry 2 2 100 100 noOptions) \<and>
   (1 :: real) \<le> 100 \<and> round3 100 = 100 \<and>
   row_g (createJigsawGeometry 2 2 100 100 noOptions ! 0) = 0 \<and>
   col_g (createJigsawGeometry 2 2 100 100 noOptions ! 0) = 0 \<and>
   row_g (createJigsawGeometry 2 2 100 100 noOptions ! 3) + 1 = 2 \<and>
   col_g (createJigsawGeometry 2 2 100 100 noOptions ! 3) + 1 = 2 \<and>
   pathStartPoint (path (createJigsawGeometry 2 2 100 100 noOptions ! 0)) = Some \<lparr>px = 0, py = 0\<rparr> \<and>
   pathEndPoint (path (createJigsawGeometry 2 2 100 100 noOptions ! 0)) = Some \<lparr>px = 0, py = 0\<rparr> \<and>
   pathStartPoint (path (createJigsawGeometry 2 2 100 100 noOptions ! 3)) = Some \<lparr>px = 0, py = 0\<rparr> \<and>
   pathEndPoint (path (createJigsawGeometry 2 2 100 100 noOptions ! 3)) = Some \<lparr>px = 0, py = 0\<rparr> \<and>
   top_k (edges (createJigsawGeometry 2 2 100 100 noOptions ! 0)) = Flat \<and>
   left_k (edges (createJigsawGeometry 2 2 100 100 noOptions ! 0)) = Flat \<and>
   right_k (edges (createJigsawGeometry 2 2 100 100 noOptions ! 3)) = Flat \<and>
   bottom_k (edges (createJigsawGeometry 2 2 100 100 noOptions ! 3)) = Flat \<and>
   top_k (edges (createJigsawGeometry 2 2 100 100 noOptions ! 3)) \<noteq> Flat \<and>
   left_k (edges (createJigsawGeometry 2 2 100 100 noOptions ! 3)) \<noteq> Flat"
proof -
  let ?gs = "createJigsawGeometry 2 2 100 100 noOptions"
  have len: "length ?gs = 4"
    unfolding createJigsawGeometry_def Let_def by (simp add: length_concat_grid)
  have mem0: "?gs ! 0 \<in> set ?gs" and mem3: "?gs ! 3 \<in> set ?gs" by (simp_all add: len)
  have g0: "?gs ! 0 = pieceGeometry 100 100 0 0 (pieceEdgesGrid 2 2 100 100 noOptions ! 0 ! 0)"
    using createJigsawGeometry_nth [of 0 2 0 2 100 100 noOptions] by simp
  have g3: "?gs ! 3 = pieceGeometry 100 100 1 1 (pieceEdgesGrid 2 2 100 100 noOptions ! 1 ! 1)"
    using createJigsawGeometry_nth [of 1 2 1 2 100 100 noOptions] by simp
  have rc: "row_g (?gs ! 0) = 0" "col_g (?gs ! 0) = 0" "row_g (?gs ! 3) = 1" "col_g (?gs ! 3) = 1"
    by (simp_all add: g0 g3 pieceGeometry_def)
  have r: "round3 100 = 100" by (simp add: round3_def)
  have i: "(1 :: nat) < 2" "(0 :: nat) < 2" by simp_all
  have sk: "top_k (edges (?gs ! 3)) \<noteq> Flat" "left_k (edges (?gs ! 3)) \<noteq> Flat"
    unfolding g3 pieceGeometry_def buildEdgeKinds_def pieceEdgesGrid_cell[OF i(1) i(1)]
    by (simp_all add: Let_def seamProfile_kind invertEdgeProfile_def reverseEdgeProfile_def
        invertAndReverseEdgeProfile_def split: EdgeKind.splits)
  from C6_path_closes [OF mem0] C6_path_closes [OF mem3] mem0 mem3 rc r sk
  show ?thesis by simp
qed

text \<open>
  C6 as stated fails. With a piece height of 0.5 the left edge of the only piece of a
  1 x 1 grid has length 1, and the last curve ends at (0, -0.5). With a piece height of
  2.0625, which has more than three decimals, the left edge of piece (0,1) of a 1 x 2 grid
  has length 2.063, and the last curve ends at (0, -0.001).
\<close>

theorem C6_path_open_counterexample:
  "pathEndPoint (path (createJigsawGeometry 1 1 100 (1 / 2) noOptions ! 0)) =
     Some \<lparr>px = 0, py = - (1 / 2)\<rparr> \<and>
   pathEndPoint (path (createJigsawGeometry 1 1 100 (1 / 2) noOptions ! 0)) \<noteq>
     Some \<lparr>px = 0, py = 0\<rparr> \<and>
   pathEndPoint (path (createJigsawGeometry 1 2 100 (33 / 16) noOptions ! 1)) =
     Some \<lparr>px = 0, py = - (1 / 1000)\<rparr> \<and>
   pathEndPoint (path (createJigsawGeometry 1 2 100 (33 / 16) noOptions ! 1)) \<noteq>
     Some \<lparr>px = 0, py = 0\<rparr>"
proof -
  have a: "createJigsawGeometry 1 1 100 (1 / 2) noOptions ! 0 =
             pieceGeometry 100 (1 / 2) 0 0 (pieceEdgesGrid 1 1 100 (1 / 2) noOptions ! 0 ! 0)"
    using createJigsawGeometry_nth [of 0 1 0 1 100 "1 / 2" noOptions] by simp
  have b: "createJigsawGeometry 1 2 100 (33 / 16) noOptions ! 1 =
             pieceGeometry 100 (33 / 16) 0 1 (pieceEdgesGrid 1 2 100 (33 / 16) noOptions ! 0 ! 1)"
    using createJigsawGeometry_nth [of 0 1 1 2 100 "33 / 16" noOptions] by simp
  have pa: "pathEndPoint (path (createJigsawGeometry 1 1 100 (1 / 2) noOptions ! 0)) =
              Some \<lparr>px = 0, py = - (1 / 2)\<rparr>"
    unfolding a using path_end_cell [of 0 1 0 1 100 "1 / 2" noOptions]
    by (simp add: pieceGeometry_def round3_def)
  have pb: "pathEndPoint (path (createJigsawGeometry 1 2 100 (33 / 16) noOptions ! 1)) =
              Some \<lparr>px = 0, py = - (1 / 1000)\<rparr>"
    unfolding b using path_end_cell [of 0 1 1 2 100 "33 / 16" noOptions]
    by (simp add: pieceGeometry_def round3_def)
  show ?thesis unfolding pa pb by simp
qed

text \<open>
  C3 fails on the code when React runs the updater of \<open>setPieces\<close> at the next render.
  \<open>finishDrag\<close> gives \<open>setPieces\<close> an updater that reads \<open>dragStateRef.current\<close>, and sets
  \<open>dragStateRef.current = null\<close> right after the call of \<open>setPieces\<close>; an updater that runs
  after that finds no drag state and takes half a piece as the offset, not the offset
  recorded at pointer down. Piece (1,1) of a 3 x 3 puzzle on a board of 300 x 300, with
  target (100,100) and a snap distance of 20, is grabbed with the pointer 10 right of and
  10 below its corner and carried until it lies at (100,100), exactly its target. Released
  there, it is put at (60,60), unlocked: its distance to the target, the square root of
  3200, is above 20. When the updater runs during the call of \<open>setPieces\<close>, the same
  release locks the piece at its target.
\<close>

theorem C3_release_on_target:
  "pieces (run exampleOptions (stateWith boardPiece) carryToTarget) =
     [boardPiece\<lparr>x_p := 100, y_p := 100\<rparr>] \<and>
   dragStateRef (run exampleOptions (stateWith boardPiece) carryToTarget) =
     Some \<lparr>pieceId = ''1-1'', pointerId = 1, source = Board, offsetX = 10, offsetY = 10\<rparr> \<and>
   pieces (run exampleOptions (stateWith boardPiece)
             (carryToTarget @ [BoardPiecePointerUp (touchAt 110 110) ''1-1''])) =
     [boardPiece\<lparr>x_p := 60, y_p := 60\<rparr>] \<and>
   \<not> locked (boardPiece\<lparr>x_p := 60, y_p := 60\<rparr>) \<and>
   \<not> distance 60 60 (tx boardPiece) (ty boardPiece) \<le> snapDistance exampleOptions \<and>
   pieces (run exampleOptions (stateWith boardPiece)
             (carryToTarget @
                [BoardPiecePointerUp ((touchAt 110 110)\<lparr>eagerUpdate := True\<rparr>) ''1-1''])) =
     [boardPiece\<lparr>x_p := 100, y_p := 100, locked := True\<rparr>]"
  by (simp add: example_run_defs stateWith_def boardPiece_def carryToTarget_def
      handleBoardPiecePointerDown_def handleBoardPiecePointerMove_def
      handleBoardPiecePointerUp_def boardMovePieces_def sqrt_3200)

text \<open>
  C5: a drag end (\<open>finishDrag\<close>, the board element present) on an unlocked piece whose drop
  point lies outside the board. When the drag started from the tray and the piece is
  still in the tray, the pieces stay as they are. Otherwise, from the tray or from the
  board, the piece goes to the tray and is unlocked, its other fields and the other
  pieces unchanged.
\<close>

theorem C5_drop_outside:
  assumes svg: "boardSvg ev = Some rect"
    and idx: "findIndex (\<lambda>piece. id_p piece = pid) (pieces s) = Some index"
    and unlocked: "\<not> locked (pieces s ! index)"
    and outside: "\<not> pointInBoard
                   (fst (clientToBoard (clientX ev) (clientY ev) rect (boardWidth cfg) (boardHeight cfg)))
                   (snd (clientToBoard (clientX ev) (clientY ev) rect (boardWidth cfg) (boardHeight cfg)))
                   (boardWidth cfg) (boardHeight cfg)"
  shows "if src = Tray \<and> location (pieces s ! index) = Tray
         then pieces (finishDrag cfg s pid src ev) = pieces s
         else pieces (finishDrag cfg s pid src ev) =
                (pieces s)[index := (pieces s ! index)\<lparr>location := Tray, locked := False\<rparr>] \<and>
              location (pieces (finishDrag cfg s pid src ev) ! index) = Tray \<and>
              \<not> locked (pieces (finishDrag cfg s pid src ev) ! index)"
proof -
  have i: "index < length (pieces s)" using idx by (auto dest: findIndex_Some)
  show ?thesis
    using i unlocked outside
    by (simp add: pieces_finishDrag[OF svg] finishDragPieces_def idx Let_def
        replacePieceAtIndex_def)
qed

theorem C5_drop_outside_witness:
  "boardSvg (touchAt 500 500) = Some \<lparr>left_r = 0, top_r = 0, width_r = 300, height_r = 300\<rparr> \<and>
   findIndex (\<lambda>piece. id_p piece = ''0-0'')
     (pieces (stateWith (examplePiece\<lparr>location := Board, x_p := 120, y_p := 80\<rparr>))) = Some 0 \<and>
   \<not> locked (pieces (stateWith (examplePiece\<lparr>location := Board, x_p := 120, y_p := 80\<rparr>)) ! 0) \<and>
   \<not> pointInBoard 500 500 300 300 \<and>
   pieces (finishDrag exampleOptions (stateWith (examplePiece\<lparr>location := Board, x_p := 120, y_p := 80\<rparr>))
             ''0-0'' Board (touchAt 500 500)) =
     [examplePiece\<lparr>location := Tray, x_p := 120, y_p := 80\<rparr>] \<and>
   pieces (finishDrag exampleOptions (stateWith (examplePiece\<lparr>location := Board, x_p := 120, y_p := 80\<rparr>))
             ''0-0'' Tray (touchAt 500 500)) =
     [examplePiece\<lparr>location := Tray, x_p := 120, y_p := 80\<rparr>] \<and>
   pieces (finishDrag exampleOptions (stateWith examplePiece) ''0-0'' Tray (touchAt 500 500)) =
     [examplePiece]"
proof -
  let ?b = "examplePiece\<lparr>location := Board, x_p := 120, y_p := 80\<rparr>"
  have e: "boardSvg (touchAt 500 500) = Some \<lparr>left_r = 0, top_r = 0, width_r = 300, height_r = 300\<rparr>"
    by (simp add: touchAt_def)
  have f: "findIndex (\<lambda>piece. id_p piece = ''0-0'') (pieces (stateWith p)) = Some 0"
    if "id_p p = ''0-0''" for p
    using that by (simp add: stateWith_def)
  have ib: "id_p ?b = ''0-0''" and ie: "id_p examplePiece = ''0-0''"
    by (simp_all add: examplePiece_def)
  have u: "\<not> locked (pieces (stateWith ?b) ! 0)" "\<not> locked (pieces (stateWith examplePiece) ! 0)"
    by (simp_all add: stateWith_def examplePiece_def)
  have c: "clientToBoard (clientX (touchAt 500 500)) (clientY (touchAt 500 500))
             \<lparr>left_r = 0, top_r = 0, width_r = 300, height_r = 300\<rparr> 300 300 = (500, 500)"
    by (simp add: clientToBoard_def touchAt_def)
  have bw: "boardWidth exampleOptions = 300" "boardHeight exampleOptions = 300"
    by (simp_all add: exampleOptions_def)
  have o: "\<not> pointInBoard 500 500 300 300" by (simp add: pointInBoard_def)
  have ps: "pieces (stateWith p) = [p]" for p by (simp add: stateWith_def)
  have lb: "location ?b = Board" "location examplePiece = Tray" by (simp_all add: examplePiece_def)
  have r1: "pieces (finishDrag exampleOptions (stateWith ?b) ''0-0'' Board (touchAt 500 500)) =
              [examplePiece\<lparr>location := Tray, x_p := 120, y_p := 80\<rparr>]"
    using C5_drop_outside [OF e f [OF ib] u(1), of exampleOptions Board] o
    by (simp add: c bw ps lb examplePiece_def)
  have r2: "pieces (finishDrag exampleOptions (stateWith ?b) ''0-0'' Tray (touchAt 500 500)) =
              [examplePiece\<lparr>location := Tray, x_p := 120, y_p := 80\<rparr>]"
    using C5_drop_outside [OF e f [OF ib] u(1), of exampleOptions Tray] o
    by (simp add: c bw ps lb examplePiece_def)
  have r3: "pieces (finishDrag exampleOptions (stateWith examplePiece) ''0-0'' Tray (touchAt 500 500)) =
              [examplePiece]"
    using C5_drop_outside [OF e f [OF ie] u(2), of exampleOptions Tray] o
    by (simp add: c bw ps lb)
  from e f [OF ib] u(1) o r1 r2 r3 show ?thesis by simp
qed



text \<open>
  C7: through any events other than a reset, a locked piece stays in the list of pieces
  with every field as it was. A pointer down on a piece that is locked returns the state
  it was given, from the board and from the tray alike. After a reset no piece is locked.
\<close>

theorem C7_locked_terminal:
  "(ResetPuzzle \<notin> set es \<and> p \<in> set (pieces s) \<and> locked p \<longrightarrow> p \<in> set (pieces (run cfg s es))) \<and>
   (find (\<lambda>candidate. id_p candidate = pid) (piecesRef s) = Some p \<and> locked p \<longrightarrow>
      handleBoardPiecePointerDown cfg s ev pid = s \<and> handleTrayPiecePointerDown cfg s ev pid = s) \<and>
   list_all (\<lambda>q. \<not> locked q) (pieces (step cfg s ResetPuzzle))"
proof -
  have "list_all (\<lambda>q. \<not> locked q) (pieces (step cfg s ResetPuzzle))"
    by (auto simp: list_all_iff step_def resetPuzzle_def dest: createInitialPieces_unlocked)
  then show ?thesis
    by (auto simp: run_locked_kept handleBoardPiecePointerDown_def handleTrayPiecePointerDown_def
        split: option.splits)
qed

theorem C7_locked_terminal_witness:
  "ResetPuzzle \<notin> set [BoardPiecePointerDown (touchAt 10 10) ''0-0'',
                        BoardPiecePointerMove (touchAt 60 60) ''0-0'',
                        BoardPiecePointerUp (touchAt 500 500) ''0-0'',
                        TrayPiecePointerDown (touchAt 10 10) ''0-0'',
                        TrayPiecePointerCancel (touchAt 10 10) ''0-0'',
                        AnimationFrame False] \<and>
   examplePiece\<lparr>location := Board, locked := True\<rparr>
     \<in> set (pieces (stateWith (examplePiece\<lparr>location := Board, locked := True\<rparr>))) \<and>
   locked (examplePiece\<lparr>location := Board, locked := True\<rparr>) \<and>
   examplePiece\<lparr>location := Board, locked := True\<rparr>
     \<in> set (pieces (run exampleOptions (stateWith (examplePiece\<lparr>location := Board, locked := True\<rparr>))
                       [BoardPiecePointerDown (touchAt 10 10) ''0-0'',
                        BoardPiecePointerMove (touchAt 60 60) ''0-0'',
                        BoardPiecePointerUp (touchAt 500 500) ''0-0'',
                        TrayPiecePointerDown (touchAt 10 10) ''0-0'',
                        TrayPiecePointerCancel (touchAt 10 10) ''0-0'',
                        AnimationFrame False])) \<and>
   find (\<lambda>candidate. id_p candidate = ''0-0'')
     (piecesRef (stateWith (examplePiece\<lparr>location := Board, locked := True\<rparr>))) =
     Some (examplePiece\<lparr>location := Board, locked := True\<rparr>) \<and>
   handleBoardPiecePointerDown exampleOptions
     (stateWith (examplePiece\<lparr>location := Board, locked := True\<rparr>)) (touchAt 10 10) ''0-0'' =
     stateWith (examplePiece\<lparr>location := Board, locked := True\<rparr>) \<and>
   handleTrayPiecePointerDown exampleOptions
     (stateWith (examplePiece\<lparr>location := Board, locked := True\<rparr>)) (touchAt 10 10) ''0-0'' =
     stateWith (examplePiece\<lparr>location := Board, locked := True\<rparr>)"
  using C7_locked_terminal [of "[BoardPiecePointerDown (touchAt 10 10) ''0-0'',
                        BoardPiecePointerMove (touchAt 60 60) ''0-0'',
                        BoardPiecePointerUp (touchAt 500 500) ''0-0'',
                        TrayPiecePointerDown (touchAt 10 10) ''0-0'',
                        TrayPiecePointerCancel (touchAt 10 10) ''0-0'',
                        AnimationFrame False]"
      "examplePiece\<lparr>location := Board, locked := True\<rparr>"
      "stateWith (examplePiece\<lparr>location := Board, locked := True\<rparr>)"
      exampleOptions "''0-0''" "touchAt 10 10"]
  by (simp add: stateWith_def examplePiece_def)

text \<open>
  C10: in every state reached from the mounted hook (whose pieces are those of
  \<open>createInitialPieces\<close>) through any events, resets among them, a locked piece is on the
  board at exactly its target. And a locked piece that an event adds to the pieces of any
  state comes from the end of a drag and lies on the board at exactly its target.
\<close>

theorem C10_locked_at_target:
  "(p \<in> set (pieces (run cfg (mountPuzzle cfg) es)) \<and> locked p \<longrightarrow>
      location p = Board \<and> x_p p = tx p \<and> y_p p = ty p) \<and>
   (q \<in> set (pieces (step cfg s e)) \<and> locked q \<and> q \<notin> set (pieces s) \<longrightarrow>
      isDragEnd e \<and> location q = Board \<and> x_p q = tx q \<and> y_p q = ty q)"
  using run_lockedOk[OF mount_lockedOk, where cfg = cfg and es = es]
    step_newly_locked [of q cfg s e]
  by (auto simp: lockedOk_def)

theorem C10_locked_at_target_witness:
  "pieces (run exampleOptions (mountPuzzle exampleOptions) (grabAndDrop 0 0)) ! 8
     \<in> set (pieces (run exampleOptions (mountPuzzle exampleOptions) (grabAndDrop 0 0))) \<and>
   locked (pieces (run exampleOptions (mountPuzzle exampleOptions) (grabAndDrop 0 0)) ! 8) \<and>
   location (pieces (run exampleOptions (mountPuzzle exampleOptions) (grabAndDrop 0 0)) ! 8) = Board \<and>
   x_p (pieces (run exampleOptions (mountPuzzle exampleOptions) (grabAndDrop 0 0)) ! 8) =
     tx (pieces (run exampleOptions (mountPuzzle exampleOptions) (grabAndDrop 0 0)) ! 8) \<and>
   y_p (pieces (run exampleOptions (mountPuzzle exampleOptions) (grabAndDrop 0 0)) ! 8) =
     ty (pieces (run exampleOptions (mountPuzzle exampleOptions) (grabAndDrop 0 0)) ! 8) \<and>
   id_p (pieces (run exampleOptions (mountPuzzle exampleOptions) (grabAndDrop 0 0)) ! 8) = ''0-0'' \<and>
   run exampleOptions (mountPuzzle exampleOptions) (grabAndDrop 0 0) =
     step exampleOptions
       (run exampleOptions (mountPuzzle exampleOptions) [TrayPiecePointerDown (touchAt 10 10) ''0-0''])
       (TrayPiecePointerUp (touchAt 50 50) ''0-0'') \<and>
   pieces (run exampleOptions (mountPuzzle exampleOptions) (grabAndDrop 0 0)) ! 8
     \<notin> set (pieces (run exampleOptions (mountPuzzle exampleOptions)
                       [TrayPiecePointerDown (touchAt 10 10) ''0-0''])) \<and>
   isDragEnd (TrayPiecePointerUp (touchAt 50 50) ''0-0'')"
proof -
  let ?ps = "pieces (run exampleOptions (mountPuzzle exampleOptions) (grabAndDrop 0 0))"
  let ?s = "run exampleOptions (mountPuzzle exampleOptions) [TrayPiecePointerDown (touchAt 10 10) ''0-0'']"
  have len: "length ?ps = 9" using grabAndDrop_locks by simp
  have mem: "?ps ! 8 \<in> set ?ps" by (rule nth_mem) (simp add: len)
  have l: "locked (?ps ! 8)" and i: "id_p (?ps ! 8) = ''0-0''" using grabAndDrop_locks by simp_all
  have r: "run exampleOptions (mountPuzzle exampleOptions) (grabAndDrop 0 0) =
             step exampleOptions ?s (TrayPiecePointerUp (touchAt 50 50) ''0-0'')"
    by (simp add: run_def grabAndDrop_def natToString_digit)
  have "list_all (\<lambda>q. \<not> locked q) (pieces ?s)" by (rule grab_leaves_unlocked)
  with l have n: "?ps ! 8 \<notin> set (pieces ?s)" by (auto simp: list_all_iff)
  have mem': "?ps ! 8 \<in> set (pieces (step exampleOptions ?s (TrayPiecePointerUp (touchAt 50 50) ''0-0'')))"
    using mem unfolding r .
  from C10_locked_at_target [of "?ps ! 8" exampleOptions "grabAndDrop 0 0" "?ps ! 8" ?s
      "TrayPiecePointerUp (touchAt 50 50) ''0-0''"]
    mem l i n mem'
  show ?thesis unfolding r [symmetric] by simp
qed

end
